theory Spec2Isabelle
  imports Complex_Main
begin

section \<open>The training control loop of playground/train.py\<close>

text \<open>
  The development embeds \<^verbatim>\<open>main\<close> of \<^verbatim>\<open>src/playground/train.py\<close>: the set-up
  before the loop (lines 104-178), one update iteration (lines 180-351) split at the
  source's own blank-line blocks, and the loop over \<^verbatim>\<open>range(num_updates)\<close>.

  Every call to a collaborator (environments, policy, optimizer, rollout storage,
  checkpoint store, logger) is recorded as an event appended to a trace, in program
  order. What the environments answer is not computed by this file: it is read from
  an oracle indexed by update and step, over which every theorem quantifies. Console
  prints and the wall-clock \<^verbatim>\<open>fps\<close> entry of the log record are left out.

  Rewards are reals. The float64 arithmetic of \<^verbatim>\<open>np.mean\<close> and \<^verbatim>\<open>np.median\<close> is not computed
  by this file either: the value numpy returns for the content of a deque is read from the
  same oracle, so every theorem holds whatever rounding numpy does.
\<close>

subsection \<open>Python and numpy values\<close>

datatype error =
    NameError string
  | KeyError string
  | IndexError
  | ZeroDivisionError
  | ValueError

definition bind :: "error + 'a \<Rightarrow> ('a \<Rightarrow> error + 'b) \<Rightarrow> error + 'b" where
  "bind m f = (case m of Inl e \<Rightarrow> Inl e | Inr x \<Rightarrow> f x)"

text \<open>\<^verbatim>\<open>for x in xs: body\<close>, stopping at the first exception.\<close>

fun for_each :: "('a \<Rightarrow> 's \<Rightarrow> error + 's) \<Rightarrow> 'a list \<Rightarrow> 's \<Rightarrow> error + 's" where
  "for_each body [] s = Inr s"
| "for_each body (x # xs) s = (case body x s of Inl e \<Rightarrow> Inl e | Inr s' \<Rightarrow> for_each body xs s')"

text \<open>\<^verbatim>\<open>range(n)\<close> for a Python int: empty when \<open>n \<le> 0\<close>.\<close>

definition py_range :: "int \<Rightarrow> nat list" where
  "py_range n = [0..<nat n]"

text \<open>A float64 as far as the loop distinguishes them.\<close>

datatype pyfloat = NegInf | Fin real | PosInf | NaN

text \<open>\<^verbatim>\<open>a > b\<close> on floats: every comparison with NaN is false.\<close>

fun float_gt :: "pyfloat \<Rightarrow> pyfloat \<Rightarrow> bool" where
  "float_gt NaN b = False"
| "float_gt a NaN = False"
| "float_gt a PosInf = False"
| "float_gt PosInf b = True"
| "float_gt NegInf b = False"
| "float_gt (Fin a) NegInf = True"
| "float_gt (Fin a) (Fin b) = (a > b)"

text \<open>\<^verbatim>\<open>np.stack(reward)\<close> (lines 204 and 281) on the reward batch of a vector environment
  of \<open>n\<close> workers, one reward per worker: numpy raises ValueError on an empty batch.\<close>

definition np_stack_rewards :: "int \<Rightarrow> 's \<Rightarrow> error + 's" where
  "np_stack_rewards n s = (if n \<le> 0 then Inl ValueError else Inr s)"

text \<open>\<^verbatim>\<open>int(x)\<close> of a float: truncation toward zero.\<close>

definition py_int :: "real \<Rightarrow> int" where
  "py_int x = (if x < 0 then \<lceil>x\<rceil> else \<lfloor>x\<rfloor>)"

text \<open>\<^verbatim>\<open>"{:d}".format(i)\<close>.\<close>

fun dec_digits :: "nat \<Rightarrow> string" where
  "dec_digits n =
     (if n < 10 then [''0123456789'' ! n]
      else dec_digits (n div 10) @ [''0123456789'' ! (n mod 10)])"

declare dec_digits.simps [simp del]

definition format_d :: "int \<Rightarrow> string" where
  "format_d i = (if i < 0 then ''-'' @ dec_digits (nat (- i)) else dec_digits (nat i))"

text \<open>\<^verbatim>\<open>os.path.join(a, b)\<close> of posixpath.\<close>

definition path_join :: "string \<Rightarrow> string \<Rightarrow> string" where
  "path_join a b =
     (if b \<noteq> [] \<and> hd b = CHR ''/'' then b
      else if a = [] \<or> last a = CHR ''/'' then a @ b
      else a @ ''/'' @ b)"

text \<open>\<^verbatim>\<open>deque(maxlen=m).append(x)\<close>: the oldest entries fall off the left.\<close>

definition deque_append :: "nat \<Rightarrow> 'a list \<Rightarrow> 'a \<Rightarrow> 'a list" where
  "deque_append maxlen xs x = (let ys = xs @ [x] in drop (length ys - maxlen) ys)"

subsection \<open>Configuration, collaborators, state\<close>

text \<open>The fields of \<^verbatim>\<open>args\<close> that \<^verbatim>\<open>main\<close> reads; \<open>max_episode_steps\<close> is
  \<^verbatim>\<open>dummy_env._max_episode_steps\<close>.\<close>

record config =
  env_name :: string
  num_frames :: real
  save_every :: real
  save_dir :: string
  cuda :: bool
  use_curriculum :: bool
  use_adaptive_sampling :: bool
  use_specialist :: bool
  use_threshold_sampling :: bool
  plot_prob :: bool
  num_processes :: int
  num_steps :: int
  num_tests :: int
  lr_decay_type :: string
  lr :: real
  max_episode_steps :: int

text \<open>One worker's \<^verbatim>\<open>info\<close> dict: keys to nested dicts (\<^verbatim>\<open>info["episode"]["r"]\<close>).\<close>

type_synonym info = "string \<rightharpoonup> (string \<rightharpoonup> real)"

text \<open>
  What the collaborators return. \<open>env_step j step\<close> is the \<^verbatim>\<open>(done, infos)\<close> part of
  \<^verbatim>\<open>envs.step\<close> at step \<open>step\<close> of update \<open>j\<close>, \<open>test_step\<close> the \<^verbatim>\<open>infos\<close> of
  \<^verbatim>\<open>test_envs.step\<close>; \<open>ppo_update j\<close> maps the parameters before \<^verbatim>\<open>agent.update\<close> of update
  \<open>j\<close> to those after it. \<open>linear_decay\<close> and \<open>exponential_decay\<close> are the helpers of
  \<^verbatim>\<open>common.misc_utils\<close>, taken as parameters. \<open>np_mean\<close> and \<open>np_median\<close> are the float64
  values \<^verbatim>\<open>np.mean\<close> and \<^verbatim>\<open>np.median\<close> return for the content of a deque of rewards.
\<close>

record 'p world =
  env_step :: "nat \<Rightarrow> nat \<Rightarrow> bool list \<times> info list"
  test_step :: "nat \<Rightarrow> nat \<Rightarrow> info list"
  ppo_update :: "nat \<Rightarrow> 'p \<Rightarrow> 'p"
  linear_decay :: "int \<Rightarrow> int \<Rightarrow> real \<Rightarrow> real \<Rightarrow> real"
  exponential_decay :: "int \<Rightarrow> real \<Rightarrow> real \<Rightarrow> real \<Rightarrow> real"
  np_mean :: "real list \<Rightarrow> pyfloat"
  np_median :: "real list \<Rightarrow> pyfloat"

datatype event =
    UpdateCurriculum int
  | UpdateSpecialist int
  | EnvReset
  | SetLR real
  | DeepCopy
  | Act
  | EnvStep
  | CreateTempStates
  | GetValueProbe
  | Pcolormesh string
  | CanvasDraw
  | UpdateSampleProb
  | Insert "real list" "real list"
  | TestReset
  | ActDeterministic
  | TestStep
  | Median "real list"
  | Mean "real list"
  | BootstrapValue
  | ComputeReturns
  | AgentUpdate
  | AfterUpdate
  | Save string
  | LogEpoch int int "real list" "real list"

text \<open>
  The variables of \<^verbatim>\<open>main\<close> that change. \<open>curriculum\<close>, \<open>specialist\<close> and
  \<open>sampling_threshold\<close> are bound only under their flags (\<open>None\<close>: unbound); \<open>axes\<close>
  lists the plot handles that are bound. \<open>params\<close> are the live parameters of
  \<^verbatim>\<open>actor_critic\<close>.
\<close>

record 'p state =
  params :: 'p
  curriculum :: "int option"
  specialist :: "int option"
  sampling_threshold :: "int option"
  axes :: "string list"
  episode_rewards :: "real list"
  test_episode_rewards :: "real list"
  next_checkpoint :: real
  max_ep_reward :: pyfloat
  trace :: "event list"

definition emit :: "event \<Rightarrow> 'p state \<Rightarrow> 'p state" where
  "emit e s = s\<lparr>trace := trace s @ [e]\<rparr>"

text \<open>Reading a plot handle: NameError when nothing bound it.\<close>

definition plot_on :: "string \<Rightarrow> 'p state \<Rightarrow> error + 'p state" where
  "plot_on ax s = (if ax \<in> set (axes s) then Inr (emit (Pcolormesh ax) s) else Inl (NameError ax))"

subsection \<open>Policy and optimizer\<close>

text \<open>
  Modelled from the spec: \<^verbatim>\<open>Policy.act\<close> and \<^verbatim>\<open>Policy.get_value\<close> (common/controller.py)
  are not under src/. The spec gives them as
  \<^verbatim>\<open>act(obs, state, mask, deterministic=False) -> (value, action, log_prob, new_state)\<close> and
  \<^verbatim>\<open>get_value(obs, state, mask) -> value\<close>, and says that collection, evaluation and
  probing only read the parameters. A call is recorded and changes nothing else.
\<close>

definition actor_critic_act :: "bool \<Rightarrow> 'p state \<Rightarrow> 'p state" where
  "actor_critic_act deterministic s = emit (if deterministic then ActDeterministic else Act) s"

definition actor_critic_get_value :: "event \<Rightarrow> 'p state \<Rightarrow> 'p state" where
  "actor_critic_get_value call s = emit call s"

text \<open>
  Modelled from the spec: \<^verbatim>\<open>PPO.update\<close> (algorithms/ppo.py) is not under src/. The spec
  gives it as \<^verbatim>\<open>update(buffer) -> (value_loss, action_loss, entropy)\<close>, producing gradient
  updates to the shared policy: the parameters after the call are a function of those
  before it and of the rollout, here \<open>ppo_update W j\<close>.
\<close>

definition agent_update :: "'p world \<Rightarrow> nat \<Rightarrow> 'p state \<Rightarrow> 'p state" where
  "agent_update W j s = emit AgentUpdate (s\<lparr>params := ppo_update W j (params s)\<rparr>)"

subsection \<open>Set-up (lines 104-178)\<close>

definition init :: "config \<Rightarrow> 'p \<Rightarrow> error + ('p state \<times> int)" where
  "init cfg p0 =
     (let s0 = \<lparr>params = p0, curriculum = None, specialist = None, sampling_threshold = None,
                axes = [], episode_rewards = [], test_episode_rewards = [],
                next_checkpoint = save_every cfg, max_ep_reward = NegInf, trace = []\<rparr>;
          s1 = (if use_curriculum cfg then emit (UpdateCurriculum 0) (s0\<lparr>curriculum := Some 0\<rparr>) else s0);
          s2 = (if use_specialist cfg then emit (UpdateSpecialist 0) (s1\<lparr>specialist := Some 0\<rparr>) else s1);
          s3 = (if use_threshold_sampling cfg then s2\<lparr>sampling_threshold := Some 150\<rparr> else s2);
          s4 = (if plot_prob cfg then s3\<lparr>axes := [''fig'', ''ax1'', ''ax2'']\<rparr> else s3);
          s5 = emit EnvReset s4
      in if num_processes cfg < 0 \<or> num_tests cfg < 0 then Inl ValueError
         else if num_steps cfg = 0 \<or> num_processes cfg = 0 then Inl ZeroDivisionError
         else Inr (s5, py_int (num_frames cfg) div num_steps cfg div num_processes cfg))"

subsection \<open>One update iteration (lines 180-351)\<close>

text \<open>Lines 182-187.\<close>

definition scheduled_lr :: "config \<Rightarrow> 'p world \<Rightarrow> int \<Rightarrow> nat \<Rightarrow> real" where
  "scheduled_lr cfg W num_updates j =
     (if lr_decay_type cfg = ''linear'' then linear_decay W (int j) num_updates (lr cfg) 0
      else if lr_decay_type cfg = ''exponential''
        then exponential_decay W (int j) (99 / 100) (lr cfg) (3 / 100000)
      else lr cfg)"

text \<open>Lines 189-191.\<close>

definition schedule :: "config \<Rightarrow> 'p world \<Rightarrow> int \<Rightarrow> nat \<Rightarrow> 'p state \<Rightarrow> 'p state" where
  "schedule cfg W num_updates j s = emit DeepCopy (emit (SetLR (scheduled_lr cfg W num_updates j)) s)"

text \<open>Lines 206-217.\<close>

definition plot_values :: "config \<Rightarrow> nat \<Rightarrow> 'p state \<Rightarrow> error + 'p state" where
  "plot_values cfg step s =
     (if plot_prob cfg \<and> step = 0 then
        bind (plot_on ''ax1'' (actor_critic_get_value GetValueProbe (emit CreateTempStates s))) (\<lambda>s1.
        bind (plot_on ''ax2'' s1) (\<lambda>s2.
        if ''fig'' \<in> set (axes s2) then Inr (emit CanvasDraw s2) else Inl (NameError ''fig'')))
      else Inr s)"

text \<open>Lines 219-227.\<close>

definition adaptive_sampling :: "config \<Rightarrow> 'p state \<Rightarrow> 'p state" where
  "adaptive_sampling cfg s =
     (if use_adaptive_sampling cfg
      then emit UpdateSampleProb (actor_critic_get_value GetValueProbe (emit CreateTempStates s))
      else s)"

text \<open>Lines 228-242.\<close>

definition threshold_sampling :: "config \<Rightarrow> nat \<Rightarrow> 'p state \<Rightarrow> error + 'p state" where
  "threshold_sampling cfg step s =
     (if use_threshold_sampling cfg then
        (let s1 = actor_critic_get_value GetValueProbe (emit CreateTempStates s)
         in case sampling_threshold s1 of
              None \<Rightarrow> Inl (NameError ''sampling_threshold'')
            | Some th \<Rightarrow>
                bind (if plot_prob cfg \<and> step = 0
                      then bind (plot_on ''ax'' s1) (\<lambda>s2.
                             if ''fig'' \<in> set (axes s2) then Inr (emit CanvasDraw s2)
                             else Inl (NameError ''fig''))
                      else Inr s1)
                  (\<lambda>s3. Inr (emit UpdateSampleProb s3)))
      else Inr s)"

text \<open>Lines 245-252, one pass of the loop over \<^verbatim>\<open>enumerate(infos)\<close>, on the pair
  \<^verbatim>\<open>(bad_masks, episode_rewards)\<close>.\<close>

definition scan_info :: "nat \<Rightarrow> nat \<times> info \<Rightarrow> real list \<times> real list \<Rightarrow> error + (real list \<times> real list)" where
  "scan_info maxlen item st =
     (case item of (p_index, info) \<Rightarrow> case st of (bad_masks, rewards) \<Rightarrow>
        bind (if info ''bad_transition'' \<noteq> None
              then (if p_index < length bad_masks then Inr (bad_masks[p_index := 0]) else Inl IndexError)
              else Inr bad_masks) (\<lambda>bm.
        case info ''episode'' of
          None \<Rightarrow> Inr (bm, rewards)
        | Some ep \<Rightarrow>
            (case ep ''r'' of
               None \<Rightarrow> Inl (KeyError ''r'')
             | Some r \<Rightarrow> Inr (bm, deque_append maxlen rewards r))))"

text \<open>Line 254.\<close>

definition masks_of :: "bool list \<Rightarrow> real list" where
  "masks_of done = map (\<lambda>d. if d then 0 else 1) done"

text \<open>Lines 194-267, the body of \<^verbatim>\<open>for step in range(args.num_steps)\<close>.\<close>

definition collect_step :: "config \<Rightarrow> 'p world \<Rightarrow> nat \<Rightarrow> nat \<Rightarrow> 'p state \<Rightarrow> error + 'p state" where
  "collect_step cfg W j step s =
     (case env_step W j step of (done, infos) \<Rightarrow>
        bind (np_stack_rewards (num_processes cfg) (emit EnvStep (actor_critic_act False s))) (\<lambda>s0.
        bind (plot_values cfg step s0) (\<lambda>s1.
        bind (threshold_sampling cfg step (adaptive_sampling cfg s1)) (\<lambda>s2.
        bind (for_each (scan_info (nat (num_processes cfg))) (enumerate 0 infos)
                (replicate (nat (num_processes cfg)) 1, episode_rewards s2)) (\<lambda>(bad_masks, rewards).
        Inr (emit (Insert (masks_of done) bad_masks) (s2\<lparr>episode_rewards := rewards\<rparr>)))))))"

definition collect :: "config \<Rightarrow> 'p world \<Rightarrow> nat \<Rightarrow> 'p state \<Rightarrow> error + 'p state" where
  "collect cfg W j s = for_each (collect_step cfg W j) (py_range (num_steps cfg)) s"

text \<open>Lines 283-288, one pass of the loop over the test workers' infos.\<close>

definition scan_test_info :: "nat \<Rightarrow> info \<Rightarrow> real list \<Rightarrow> error + real list" where
  "scan_test_info maxlen info rewards =
     (case info ''episode'' of
        None \<Rightarrow> Inr rewards
      | Some ep \<Rightarrow>
          (case ep ''r'' of
             None \<Rightarrow> Inl (KeyError ''r'')
           | Some r \<Rightarrow> Inr (deque_append maxlen rewards r)))"

text \<open>Lines 274-288, the body of \<^verbatim>\<open>for step in range(dummy_env._max_episode_steps)\<close>.\<close>

definition evaluate_step :: "config \<Rightarrow> 'p world \<Rightarrow> nat \<Rightarrow> nat \<Rightarrow> 'p state \<Rightarrow> error + 'p state" where
  "evaluate_step cfg W j step s =
     bind (np_stack_rewards (num_tests cfg) (emit TestStep (actor_critic_act True s))) (\<lambda>s1.
     bind (for_each (scan_test_info (nat (num_tests cfg))) (test_step W j step) (test_episode_rewards s1))
       (\<lambda>rewards. Inr (s1\<lparr>test_episode_rewards := rewards\<rparr>)))"

text \<open>Lines 270-288.\<close>

definition evaluate :: "config \<Rightarrow> 'p world \<Rightarrow> nat \<Rightarrow> 'p state \<Rightarrow> error + 'p state" where
  "evaluate cfg W j s = for_each (evaluate_step cfg W j) (py_range (max_episode_steps cfg)) (emit TestReset s)"

text \<open>Lines 291-294. Python's \<^verbatim>\<open>and\<close> evaluates the median only when the flag is set.\<close>

definition escalate_curriculum :: "config \<Rightarrow> 'p world \<Rightarrow> 'p state \<Rightarrow> error + 'p state" where
  "escalate_curriculum cfg W s =
     (if use_curriculum cfg then
        (let s1 = emit (Median (episode_rewards s)) s
         in if float_gt (np_median W (episode_rewards s)) (Fin 900) then
              (case curriculum s1 of
                 None \<Rightarrow> Inl (NameError ''curriculum'')
               | Some c \<Rightarrow> Inr (emit (UpdateCurriculum (c + 1)) (s1\<lparr>curriculum := Some (c + 1)\<rparr>)))
            else Inr s1)
      else Inr s)"

text \<open>Lines 296-301.\<close>

definition advantage :: "'p state \<Rightarrow> 'p state" where
  "advantage s = emit ComputeReturns (actor_critic_get_value BootstrapValue s)"

text \<open>Lines 303-305.\<close>

definition optimize :: "'p world \<Rightarrow> nat \<Rightarrow> 'p state \<Rightarrow> 'p state" where
  "optimize W j s = emit AfterUpdate (agent_update W j s)"

text \<open>Lines 321-328.\<close>

definition fork_specialist :: "config \<Rightarrow> 'p world \<Rightarrow> 'p state \<Rightarrow> error + 'p state" where
  "fork_specialist cfg W s =
     (if use_specialist cfg then
        (let s1 = emit (Mean (episode_rewards s)) s
         in if float_gt (np_mean W (episode_rewards s)) (Fin 1000) then
              (case specialist s1 of
                 None \<Rightarrow> Inl (NameError ''specialist'')
               | Some sp \<Rightarrow>
                   Inr (emit (UpdateSpecialist (sp + 1))
                     ((emit (Save (path_join (save_dir cfg)
                         (env_name cfg @ ''_specialist_'' @ format_d sp @ ''.pt''))) s1)
                      \<lparr>specialist := Some (sp + 1)\<rparr>)))
            else Inr s1)
      else Inr s)"

text \<open>The path of line 335: the name of line 333 under the save directory.\<close>

definition best_path :: "config \<Rightarrow> string" where
  "best_path cfg = path_join (save_dir cfg) (env_name cfg @ ''_best.pt'')"

text \<open>Lines 332-335. The mean is taken once for the test and once more for the new maximum.\<close>

definition save_best :: "config \<Rightarrow> 'p world \<Rightarrow> 'p state \<Rightarrow> 'p state" where
  "save_best cfg W s =
     (if length (episode_rewards s) > 1 then
        (let s1 = emit (Mean (episode_rewards s)) s
         in if float_gt (np_mean W (episode_rewards s)) (max_ep_reward s) then
              emit (Save (best_path cfg))
                ((emit (Mean (episode_rewards s)) s1)\<lparr>max_ep_reward := np_mean W (episode_rewards s)\<rparr>)
            else s1)
      else s)"

text \<open>Lines 337-351.\<close>

definition log_epoch :: "config \<Rightarrow> nat \<Rightarrow> 'p state \<Rightarrow> 'p state" where
  "log_epoch cfg j s =
     (if length (episode_rewards s) > 1
      then emit (LogEpoch (int j + 1) ((int j + 1) * num_processes cfg * num_steps cfg)
                   (episode_rewards s) (test_episode_rewards s)) s
      else s)"

text \<open>Lines 307-351.\<close>

definition checkpoint_adapt :: "config \<Rightarrow> 'p world \<Rightarrow> int \<Rightarrow> nat \<Rightarrow> 'p state \<Rightarrow> error + 'p state" where
  "checkpoint_adapt cfg W num_updates j s =
     (let frame_count = (int j + 1) * num_steps cfg * num_processes cfg;
          periodic = ((real_of_int frame_count \<ge> next_checkpoint s \<or> int j = num_updates - 1)
                      \<and> save_dir cfg \<noteq> []);
          model_name = (if periodic
                        then env_name cfg @ ''_'' @ format_d (py_int (next_checkpoint s)) @ ''.pt''
                        else env_name cfg @ ''_latest.pt'');
          s1 = (if periodic then s\<lparr>next_checkpoint := next_checkpoint s + save_every cfg\<rparr> else s)
      in bind (fork_specialist cfg W s1) (\<lambda>s2.
           Inr (log_epoch cfg j (save_best cfg W (emit (Save (path_join (save_dir cfg) model_name)) s2)))))"

text \<open>Lines 180-351, the body of \<^verbatim>\<open>for j in range(num_updates)\<close>.\<close>

definition update_iter :: "config \<Rightarrow> 'p world \<Rightarrow> int \<Rightarrow> nat \<Rightarrow> 'p state \<Rightarrow> error + 'p state" where
  "update_iter cfg W num_updates j s =
     bind (collect cfg W j (schedule cfg W num_updates j s)) (\<lambda>s1.
     bind (evaluate cfg W j s1) (\<lambda>s2.
     bind (escalate_curriculum cfg W s2) (\<lambda>s3.
     checkpoint_adapt cfg W num_updates j (optimize W j (advantage s3)))))"

definition train_loop :: "config \<Rightarrow> 'p world \<Rightarrow> int \<Rightarrow> nat list \<Rightarrow> 'p state \<Rightarrow> error + 'p state" where
  "train_loop cfg W num_updates js s = for_each (update_iter cfg W num_updates) js s"

definition main :: "config \<Rightarrow> 'p world \<Rightarrow> 'p \<Rightarrow> error + 'p state" where
  "main cfg W p0 =
     bind (init cfg p0) (\<lambda>(s, num_updates). train_loop cfg W num_updates (py_range num_updates) s)"

subsection \<open>Reading a trace\<close>

text \<open>The block of the iteration that makes each call. \<open>UpdateCurriculum\<close> is filed under
  the block of lines 291-294; the set-up makes that call once as well.\<close>

datatype phase =
  SETUP | SCHEDULE | COLLECT | EVALUATE | ADAPT_CURRICULUM | ADVANTAGE | OPTIMIZE | CHECKPOINT_ADAPT

fun phase_of :: "event \<Rightarrow> phase" where
  "phase_of EnvReset = SETUP"
| "phase_of (SetLR v) = SCHEDULE"
| "phase_of DeepCopy = SCHEDULE"
| "phase_of Act = COLLECT"
| "phase_of EnvStep = COLLECT"
| "phase_of CreateTempStates = COLLECT"
| "phase_of GetValueProbe = COLLECT"
| "phase_of (Pcolormesh ax) = COLLECT"
| "phase_of CanvasDraw = COLLECT"
| "phase_of UpdateSampleProb = COLLECT"
| "phase_of (Insert masks bad_masks) = COLLECT"
| "phase_of TestReset = EVALUATE"
| "phase_of ActDeterministic = EVALUATE"
| "phase_of TestStep = EVALUATE"
| "phase_of (Median xs) = ADAPT_CURRICULUM"
| "phase_of (UpdateCurriculum c) = ADAPT_CURRICULUM"
| "phase_of BootstrapValue = ADVANTAGE"
| "phase_of ComputeReturns = ADVANTAGE"
| "phase_of AgentUpdate = OPTIMIZE"
| "phase_of AfterUpdate = OPTIMIZE"
| "phase_of (Mean xs) = CHECKPOINT_ADAPT"
| "phase_of (Save path) = CHECKPOINT_ADAPT"
| "phase_of (UpdateSpecialist sp) = CHECKPOINT_ADAPT"
| "phase_of (LogEpoch i n xs ys) = CHECKPOINT_ADAPT"

text \<open>The levels pushed by \<^verbatim>\<open>envs.update_curriculum\<close> and the indices pushed by
  \<^verbatim>\<open>envs.update_specialist\<close>, in order.\<close>

definition curriculum_pushes :: "event list \<Rightarrow> int list" where
  "curriculum_pushes evs = List.map_filter (\<lambda>e. case e of UpdateCurriculum c \<Rightarrow> Some c | _ \<Rightarrow> None) evs"

definition specialist_pushes :: "event list \<Rightarrow> int list" where
  "specialist_pushes evs = List.map_filter (\<lambda>e. case e of UpdateSpecialist n \<Rightarrow> Some n | _ \<Rightarrow> None) evs"

text \<open>A counter that starts at \<open>Some c0\<close> stays bound and between \<open>c0\<close> and \<open>c0\<close> plus the
  number of iterations run; one that starts unbound stays unbound.\<close>

definition counter_within :: "int option \<Rightarrow> nat \<Rightarrow> int option \<Rightarrow> bool" where
  "counter_within start n now =
     (case start of None \<Rightarrow> now = None
      | Some c0 \<Rightarrow> (case now of None \<Rightarrow> False | Some c \<Rightarrow> c0 \<le> c \<and> c \<le> c0 + int n))"

text \<open>The \<^verbatim>\<open>(masks, bad_masks)\<close> pairs handed to \<^verbatim>\<open>rollouts.insert\<close>, in order.\<close>

definition inserts :: "event list \<Rightarrow> (real list \<times> real list) list" where
  "inserts evs = List.map_filter (\<lambda>e. case e of Insert masks bad_masks \<Rightarrow> Some (masks, bad_masks) | _ \<Rightarrow> None) evs"

text \<open>What the environments must return for the loop to raise nothing: at most one
  info per worker, and \<^verbatim>\<open>"r"\<close> in every \<^verbatim>\<open>"episode"\<close> entry.\<close>

definition infos_ok :: "info list \<Rightarrow> bool" where
  "infos_ok infos \<longleftrightarrow>
     (\<forall>info\<in>set infos. case info ''episode'' of None \<Rightarrow> True | Some ep \<Rightarrow> ep ''r'' \<noteq> None)"

definition world_ok :: "config \<Rightarrow> 'p world \<Rightarrow> bool" where
  "world_ok cfg W \<longleftrightarrow>
     (\<forall>j step. length (snd (env_step W j step)) \<le> nat (num_processes cfg)
        \<and> infos_ok (snd (env_step W j step)) \<and> infos_ok (test_step W j step))"

text \<open>The names the flags promise are bound.\<close>

definition bound_ok :: "config \<Rightarrow> 'p state \<Rightarrow> bool" where
  "bound_ok cfg s \<longleftrightarrow>
     (plot_prob cfg \<longrightarrow> set [''fig'', ''ax1'', ''ax2''] \<subseteq> set (axes s))
     \<and> (use_threshold_sampling cfg \<longrightarrow> sampling_threshold s \<noteq> None)
     \<and> (use_curriculum cfg \<longrightarrow> curriculum s \<noteq> None)
     \<and> (use_specialist cfg \<longrightarrow> specialist s \<noteq> None)"

text \<open>The events a step adds to the trace.\<close>

definition new_events :: "'p state \<Rightarrow> 'p state \<Rightarrow> event list" where
  "new_events s s' = drop (length (trace s)) (trace s')"

text \<open>Where a call first stands in a list of events, counting from 0.\<close>

fun position :: "event \<Rightarrow> event list \<Rightarrow> nat option" where
  "position x [] = None"
| "position x (e # es) = (if e = x then Some 0 else map_option Suc (position x es))"

subsection \<open>Sample runs\<close>

text \<open>
  A small configuration with the curriculum on: two workers, one step per rollout, one
  test step, a budget of four frames (two updates). In \<open>demo_world\<close> worker 0 ends an
  episode of reward 1000 at every step and worker 1 is cut by the time limit; in
  \<open>rich_world\<close> the reward is 1200; in \<open>quiet_world\<close> no episode ever ends.
\<close>

text \<open>
  The value numpy returns, for the mean and the median alike, on the deques these runs
  meet: NaN on the empty deque, and on one or two copies of 1000 or of 1200 that value
  (float64 adds and halves these without rounding). The sample worlds are asked for no other
  deque; the table answers NaN there.
\<close>

definition sample_aggregate :: "real list \<Rightarrow> pyfloat" where
  "sample_aggregate xs =
     (if xs = [1000] \<or> xs = [1000, 1000] then Fin 1000
      else if xs = [1200] \<or> xs = [1200, 1200] then Fin 1200
      else NaN)"

definition demo_cfg :: config where
  "demo_cfg = \<lparr>env_name = ''Cassie'', num_frames = 4, save_every = 100, save_dir = ''models'',
     cuda = False, use_curriculum = True, use_adaptive_sampling = False, use_specialist = False,
     use_threshold_sampling = False, plot_prob = False, num_processes = 2, num_steps = 1,
     num_tests = 1, lr_decay_type = ''exponential'', lr = 1, max_episode_steps = 1\<rparr>"

definition demo_world :: "nat world" where
  "demo_world = \<lparr>env_step = (\<lambda>j step. ([True, False],
        [[''episode'' \<mapsto> [''r'' \<mapsto> 1000]], [''bad_transition'' \<mapsto> Map.empty]])),
     test_step = (\<lambda>j step. [Map.empty]),
     ppo_update = (\<lambda>j p. Suc p),
     linear_decay = (\<lambda>j n init fin. init - (init - fin) * real_of_int j / real_of_int n),
     exponential_decay = (\<lambda>j rate init fin. max (init * rate ^ nat j) fin),
     np_mean = sample_aggregate, np_median = sample_aggregate\<rparr>"

definition quiet_world :: "nat world" where
  "quiet_world = demo_world\<lparr>env_step := (\<lambda>j step. ([False, False], [Map.empty, Map.empty]))\<rparr>"

definition rich_world :: "nat world" where
  "rich_world = demo_world\<lparr>env_step := (\<lambda>j step. ([True, False],
        [[''episode'' \<mapsto> [''r'' \<mapsto> 1200]], [''bad_transition'' \<mapsto> Map.empty]]))\<rparr>"

text \<open>The state \<open>init demo_cfg 0\<close> returns, and the states after the first and the second
  update in \<open>demo_world\<close>.\<close>

definition demo_state :: "nat state" where
  "demo_state = \<lparr>params = 0, curriculum = Some 0, specialist = None, sampling_threshold = None,
     axes = [], episode_rewards = [], test_episode_rewards = [], next_checkpoint = 100,
     max_ep_reward = NegInf, trace = [UpdateCurriculum 0, EnvReset]\<rparr>"

definition demo_state1 :: "nat state" where
  "demo_state1 = \<lparr>params = 1, curriculum = Some 1, specialist = None, sampling_threshold = None,
     axes = [], episode_rewards = [1000], test_episode_rewards = [], next_checkpoint = 100,
     max_ep_reward = NegInf,
     trace = [UpdateCurriculum 0, EnvReset, SetLR 1, DeepCopy, Act, EnvStep, Insert [0, 1] [1, 0],
       TestReset, ActDeterministic, TestStep, Median [1000], UpdateCurriculum 1, BootstrapValue,
       ComputeReturns, AgentUpdate, AfterUpdate, Save ''models/Cassie_latest.pt'']\<rparr>"

definition demo_state2 :: "nat state" where
  "demo_state2 = \<lparr>params = 2, curriculum = Some 2, specialist = None, sampling_threshold = None,
     axes = [], episode_rewards = [1000, 1000], test_episode_rewards = [], next_checkpoint = 200,
     max_ep_reward = Fin 1000,
     trace = [UpdateCurriculum 0, EnvReset, SetLR 1, DeepCopy, Act, EnvStep, Insert [0, 1] [1, 0],
       TestReset, ActDeterministic, TestStep, Median [1000], UpdateCurriculum 1, BootstrapValue,
       ComputeReturns, AgentUpdate, AfterUpdate, Save ''models/Cassie_latest.pt'',
       SetLR (99 / 100), DeepCopy, Act, EnvStep, Insert [0, 1] [1, 0],
       TestReset, ActDeterministic, TestStep, Median [1000, 1000], UpdateCurriculum 2,
       BootstrapValue, ComputeReturns, AgentUpdate, AfterUpdate, Save ''models/Cassie_100.pt'',
       Mean [1000, 1000], Mean [1000, 1000], Save ''models/Cassie_best.pt'',
       LogEpoch 2 4 [1000, 1000] []]\<rparr>"

text \<open>The sample configuration with the specialist fork on as well.\<close>

definition fork_cfg :: config where
  "fork_cfg = demo_cfg\<lparr>use_specialist := True\<rparr>"

text \<open>The state \<open>init fork_cfg 0\<close> returns, and the states after the first and the second
  update in \<open>rich_world\<close>.\<close>

definition fork_state :: "nat state" where
  "fork_state = \<lparr>params = 0, curriculum = Some 0, specialist = Some 0, sampling_threshold = None,
     axes = [], episode_rewards = [], test_episode_rewards = [], next_checkpoint = 100,
     max_ep_reward = NegInf, trace = [UpdateCurriculum 0, UpdateSpecialist 0, EnvReset]\<rparr>"

definition fork_state1 :: "nat state" where
  "fork_state1 = \<lparr>params = 1, curriculum = Some 1, specialist = Some 1, sampling_threshold = None,
     axes = [], episode_rewards = [1200], test_episode_rewards = [], next_checkpoint = 100,
     max_ep_reward = NegInf,
     trace = [UpdateCurriculum 0, UpdateSpecialist 0, EnvReset, SetLR 1, DeepCopy, Act, EnvStep,
       Insert [0, 1] [1, 0], TestReset, ActDeterministic, TestStep, Median [1200],
       UpdateCurriculum 1, BootstrapValue, ComputeReturns, AgentUpdate, AfterUpdate,
       Mean [1200], Save ''models/Cassie_specialist_0.pt'', UpdateSpecialist 1,
       Save ''models/Cassie_latest.pt'']\<rparr>"

definition fork_state2 :: "nat state" where
  "fork_state2 = \<lparr>params = 2, curriculum = Some 2, specialist = Some 2, sampling_threshold = None,
     axes = [], episode_rewards = [1200, 1200], test_episode_rewards = [], next_checkpoint = 200,
     max_ep_reward = Fin 1200,
     trace = [UpdateCurriculum 0, UpdateSpecialist 0, EnvReset, SetLR 1, DeepCopy, Act, EnvStep,
       Insert [0, 1] [1, 0], TestReset, ActDeterministic, TestStep, Median [1200],
       UpdateCurriculum 1, BootstrapValue, ComputeReturns, AgentUpdate, AfterUpdate,
       Mean [1200], Save ''models/Cassie_specialist_0.pt'', UpdateSpecialist 1,
       Save ''models/Cassie_latest.pt'',
       SetLR (99 / 100), DeepCopy, Act, EnvStep, Insert [0, 1] [1, 0],
       TestReset, ActDeterministic, TestStep, Median [1200, 1200], UpdateCurriculum 2,
       BootstrapValue, ComputeReturns, AgentUpdate, AfterUpdate, Mean [1200, 1200],
       Save ''models/Cassie_specialist_1.pt'', UpdateSpecialist 2,
       Save ''models/Cassie_100.pt'', Mean [1200, 1200], Mean [1200, 1200],
       Save ''models/Cassie_best.pt'', LogEpoch 2 4 [1200, 1200] []]\<rparr>"

text \<open>The same with a budget of one update.\<close>

definition quiet_cfg :: config where
  "quiet_cfg = demo_cfg\<lparr>use_specialist := True, num_frames := 2\<rparr>"

text \<open>The sample configuration with value plots and threshold sampling both on.\<close>

definition plot_cfg :: config where
  "plot_cfg = demo_cfg\<lparr>plot_prob := True, use_threshold_sampling := True\<rparr>"

section \<open>Properties\<close>

subsection \<open>Loops and events\<close>

lemma np_stack_rewards_Inr [simp]: "np_stack_rewards n s = Inr s' \<longleftrightarrow> 0 < n \<and> s' = s"
  by (auto simp: np_stack_rewards_def)

lemma bind_Inr_iff: "bind m f = Inr y \<longleftrightarrow> (\<exists>x. m = Inr x \<and> f x = Inr y)"
  by (cases m) (simp_all add: bind_def)

lemma for_each_total:
  assumes "P s"
    and "\<And>x t. x \<in> set xs \<Longrightarrow> P t \<Longrightarrow> \<exists>t'. body x t = Inr t' \<and> P t'"
  shows "\<exists>s'. for_each body xs s = Inr s' \<and> P s'"
  using assms
proof (induction xs arbitrary: s)
  case Nil
  then show ?case by simp
next
  case (Cons x xs)
  from Cons.prems obtain t where t: "body x s = Inr t" and Pt: "P t"
    by fastforce
  from Cons.IH [OF Pt] Cons.prems(2) obtain s' where "for_each body xs t = Inr s'" "P s'"
    by auto
  then show ?case using t by simp
qed

lemma new_events_eq: "trace s' = trace s @ evs \<Longrightarrow> new_events s s' = evs"
  by (simp add: new_events_def)

lemma pushes_append [simp]:
  "curriculum_pushes (xs @ ys) = curriculum_pushes xs @ curriculum_pushes ys"
  "specialist_pushes (xs @ ys) = specialist_pushes xs @ specialist_pushes ys"
  "inserts (xs @ ys) = inserts xs @ inserts ys"
  by (simp_all add: curriculum_pushes_def specialist_pushes_def inserts_def map_filter_def)

lemma pushes_Nil [simp]: "curriculum_pushes [] = []" "specialist_pushes [] = []" "inserts [] = []"
  by (simp_all add: curriculum_pushes_def specialist_pushes_def inserts_def map_filter_def)

lemma pushes_Cons [simp]:
  "curriculum_pushes (e # es) = (case e of UpdateCurriculum c \<Rightarrow> [c] | _ \<Rightarrow> []) @ curriculum_pushes es"
  "specialist_pushes (e # es) = (case e of UpdateSpecialist n \<Rightarrow> [n] | _ \<Rightarrow> []) @ specialist_pushes es"
  "inserts (e # es) = (case e of Insert masks bad_masks \<Rightarrow> [(masks, bad_masks)] | _ \<Rightarrow> []) @ inserts es"
  by (simp_all add: curriculum_pushes_def specialist_pushes_def inserts_def map_filter_def split: event.splits)

lemma curriculum_pushes_other:
  "\<forall>e\<in>set evs. phase_of e \<noteq> ADAPT_CURRICULUM \<Longrightarrow> curriculum_pushes evs = []"
  by (induction evs) (auto simp: curriculum_pushes_def map_filter_def split: event.splits)

lemma specialist_pushes_other:
  "\<forall>e\<in>set evs. phase_of e \<noteq> CHECKPOINT_ADAPT \<Longrightarrow> specialist_pushes evs = []"
  by (induction evs) (auto simp: specialist_pushes_def map_filter_def split: event.splits)

lemma phase_not_in:
  "\<forall>x\<in>set evs. phase_of x = p \<Longrightarrow> phase_of y \<noteq> p \<Longrightarrow> y \<notin> set evs"
  by auto

lemma count_list_phase:
  "\<forall>x\<in>set evs. phase_of x = p \<Longrightarrow> phase_of y \<noteq> p \<Longrightarrow> count_list evs y = 0"
  by (auto simp: count_list_0_iff)

subsection \<open>The collection and evaluation blocks\<close>

text \<open>The effect of a block on the state: the fields it may change, and the events it adds.\<close>

lemma schedule_eq:
  "schedule cfg W num_updates j s = s\<lparr>trace := trace s @ [SetLR (scheduled_lr cfg W num_updates j), DeepCopy]\<rparr>"
  by (simp add: schedule_def emit_def)

lemma plot_values_effect:
  assumes "plot_values cfg step s = Inr s'"
  shows "\<exists>evs. s' = s\<lparr>trace := trace s @ evs\<rparr> \<and> (\<forall>e\<in>set evs. phase_of e = COLLECT) \<and> EnvStep \<notin> set evs
           \<and> inserts evs = []"
proof (cases "plot_prob cfg \<and> step = 0")
  case True
  with assms have "s' = s\<lparr>trace := trace s @ [CreateTempStates, GetValueProbe, Pcolormesh ''ax1'', Pcolormesh ''ax2'', CanvasDraw]\<rparr>"
    by (auto simp: plot_values_def plot_on_def bind_def emit_def actor_critic_get_value_def split: if_splits)
  then show ?thesis by (intro exI [of _ "[CreateTempStates, GetValueProbe, Pcolormesh ''ax1'', Pcolormesh ''ax2'', CanvasDraw]"]) simp
next
  case False
  with assms have "s' = s" by (auto simp: plot_values_def)
  then show ?thesis by (intro exI [of _ "[]"]) simp
qed

lemma adaptive_sampling_effect:
  "\<exists>evs. adaptive_sampling cfg s = s\<lparr>trace := trace s @ evs\<rparr> \<and> (\<forall>e\<in>set evs. phase_of e = COLLECT) \<and> EnvStep \<notin> set evs
           \<and> inserts evs = []"
proof (cases "use_adaptive_sampling cfg")
  case True
  then show ?thesis
    by (intro exI [of _ "[CreateTempStates, GetValueProbe, UpdateSampleProb]"])
       (simp add: adaptive_sampling_def emit_def actor_critic_get_value_def)
next
  case False
  then show ?thesis by (intro exI [of _ "[]"]) (simp add: adaptive_sampling_def)
qed

lemma threshold_sampling_effect:
  assumes "threshold_sampling cfg step s = Inr s'"
  shows "\<exists>evs. s' = s\<lparr>trace := trace s @ evs\<rparr> \<and> (\<forall>e\<in>set evs. phase_of e = COLLECT) \<and> EnvStep \<notin> set evs
           \<and> inserts evs = []"
proof (cases "use_threshold_sampling cfg")
  case True
  show ?thesis
  proof (cases "plot_prob cfg \<and> step = 0")
    case True
    with assms \<open>use_threshold_sampling cfg\<close>
    have "s' = s\<lparr>trace := trace s @ [CreateTempStates, GetValueProbe, Pcolormesh ''ax'', CanvasDraw, UpdateSampleProb]\<rparr>"
      by (auto simp: threshold_sampling_def plot_on_def bind_def emit_def actor_critic_get_value_def Let_def
          split: if_splits option.splits)
    then show ?thesis
      by (intro exI [of _ "[CreateTempStates, GetValueProbe, Pcolormesh ''ax'', CanvasDraw, UpdateSampleProb]"]) simp
  next
    case False
    with assms \<open>use_threshold_sampling cfg\<close>
    have "s' = s\<lparr>trace := trace s @ [CreateTempStates, GetValueProbe, UpdateSampleProb]\<rparr>"
      by (auto simp: threshold_sampling_def plot_on_def bind_def emit_def actor_critic_get_value_def Let_def
          split: if_splits option.splits)
    then show ?thesis
      by (intro exI [of _ "[CreateTempStates, GetValueProbe, UpdateSampleProb]"]) simp
  qed
next
  case False
  with assms have "s' = s" by (simp add: threshold_sampling_def)
  then show ?thesis by (intro exI [of _ "[]"]) simp
qed

lemma collect_step_effect:
  assumes "collect_step cfg W j step s = Inr s'"
  shows "\<exists>rewards evs. s' = s\<lparr>episode_rewards := rewards, trace := trace s @ evs\<rparr>
           \<and> (\<forall>e\<in>set evs. phase_of e = COLLECT) \<and> count_list evs EnvStep = 1"
proof -
  obtain dn infos where W: "env_step W j step = (dn, infos)" by (cases "env_step W j step")
  from assms W obtain s1 s2 bad_masks rewards where
    s1: "plot_values cfg step (emit EnvStep (actor_critic_act False s)) = Inr s1" and
    s2: "threshold_sampling cfg step (adaptive_sampling cfg s1) = Inr s2" and
    s': "s' = emit (Insert (masks_of dn) bad_masks) (s2\<lparr>episode_rewards := rewards\<rparr>)"
    by (auto simp: collect_step_def bind_Inr_iff)
  from plot_values_effect [OF s1] obtain e1 where
    e1: "s1 = s\<lparr>trace := trace s @ [Act, EnvStep] @ e1\<rparr>" "\<forall>e\<in>set e1. phase_of e = COLLECT" "EnvStep \<notin> set e1"
    by (auto simp: emit_def actor_critic_act_def)
  from adaptive_sampling_effect [of cfg s1] obtain e2 where
    e2: "adaptive_sampling cfg s1 = s1\<lparr>trace := trace s1 @ e2\<rparr>" "\<forall>e\<in>set e2. phase_of e = COLLECT" "EnvStep \<notin> set e2"
    by blast
  from threshold_sampling_effect [OF s2] obtain e3 where
    e3: "s2 = (adaptive_sampling cfg s1)\<lparr>trace := trace (adaptive_sampling cfg s1) @ e3\<rparr>"
      "\<forall>e\<in>set e3. phase_of e = COLLECT" "EnvStep \<notin> set e3"
    by blast
  let ?evs = "[Act, EnvStep] @ e1 @ e2 @ e3 @ [Insert (masks_of dn) bad_masks]"
  have "s' = s\<lparr>episode_rewards := rewards, trace := trace s @ ?evs\<rparr>"
    using s' e1(1) e2(1) e3(1) by (simp add: emit_def)
  moreover have "\<forall>e\<in>set ?evs. phase_of e = COLLECT"
    using e1(2) e2(2) e3(2) by auto
  moreover have "count_list ?evs EnvStep = 1"
    using e1(3) e2(3) e3(3) by (simp add: count_list_0_iff)
  ultimately show ?thesis by blast
qed

lemma collect_loop_effect:
  "for_each (collect_step cfg W j) steps s = Inr s' \<Longrightarrow>
     \<exists>rewards evs. s' = s\<lparr>episode_rewards := rewards, trace := trace s @ evs\<rparr>
       \<and> (\<forall>e\<in>set evs. phase_of e = COLLECT) \<and> count_list evs EnvStep = length steps"
proof (induction steps arbitrary: s)
  case Nil
  then have "s' = s\<lparr>episode_rewards := episode_rewards s, trace := trace s @ []\<rparr>" by simp
  then show ?case by (intro exI [of _ "episode_rewards s"] exI [of _ "[]"]) simp
next
  case (Cons step steps)
  from Cons.prems obtain t where t: "collect_step cfg W j step s = Inr t"
    and rest: "for_each (collect_step cfg W j) steps t = Inr s'"
    by (auto split: sum.splits)
  from collect_step_effect [OF t] obtain r1 e1 where
    1: "t = s\<lparr>episode_rewards := r1, trace := trace s @ e1\<rparr>"
       "\<forall>e\<in>set e1. phase_of e = COLLECT" "count_list e1 EnvStep = 1"
    by blast
  from Cons.IH [OF rest] obtain r2 e2 where
    2: "s' = t\<lparr>episode_rewards := r2, trace := trace t @ e2\<rparr>"
       "\<forall>e\<in>set e2. phase_of e = COLLECT" "count_list e2 EnvStep = length steps"
    by blast
  have "s' = s\<lparr>episode_rewards := r2, trace := trace s @ (e1 @ e2)\<rparr>"
    using 1(1) 2(1) by simp
  moreover have "\<forall>e\<in>set (e1 @ e2). phase_of e = COLLECT"
    using 1(2) 2(2) by auto
  moreover have "count_list (e1 @ e2) EnvStep = length (step # steps)"
    using 1(3) 2(3) by simp
  ultimately show ?case by blast
qed

lemma collect_effect:
  assumes "collect cfg W j s = Inr s'"
  shows "\<exists>rewards evs. s' = s\<lparr>episode_rewards := rewards, trace := trace s @ evs\<rparr>
           \<and> (\<forall>e\<in>set evs. phase_of e = COLLECT) \<and> count_list evs EnvStep = nat (num_steps cfg)"
  using collect_loop_effect [of cfg W j "py_range (num_steps cfg)" s s'] assms
  by (simp add: collect_def py_range_def)

lemma evaluate_step_effect:
  assumes "evaluate_step cfg W j step s = Inr s'"
  shows "\<exists>rewards. s' = s\<lparr>test_episode_rewards := rewards, trace := trace s @ [ActDeterministic, TestStep]\<rparr>"
proof -
  from assms obtain r where "s' = (emit TestStep (actor_critic_act True s))\<lparr>test_episode_rewards := r\<rparr>"
    by (auto simp: evaluate_step_def Let_def bind_Inr_iff)
  then show ?thesis
    by (intro exI [of _ r]) (simp add: emit_def actor_critic_act_def)
qed

lemma evaluate_loop_effect:
  "for_each (evaluate_step cfg W j) steps s = Inr s' \<Longrightarrow>
     \<exists>rewards evs. s' = s\<lparr>test_episode_rewards := rewards, trace := trace s @ evs\<rparr>
       \<and> (\<forall>e\<in>set evs. phase_of e = EVALUATE)"
proof (induction steps arbitrary: s)
  case Nil
  then have "s' = s\<lparr>test_episode_rewards := test_episode_rewards s, trace := trace s @ []\<rparr>" by simp
  then show ?case by (intro exI [of _ "test_episode_rewards s"] exI [of _ "[]"]) simp
next
  case (Cons step steps)
  from Cons.prems obtain t where t: "evaluate_step cfg W j step s = Inr t"
    and rest: "for_each (evaluate_step cfg W j) steps t = Inr s'"
    by (auto split: sum.splits)
  from evaluate_step_effect [OF t] obtain r1 where
    1: "t = s\<lparr>test_episode_rewards := r1, trace := trace s @ [ActDeterministic, TestStep]\<rparr>"
    by blast
  from Cons.IH [OF rest] obtain r2 e2 where
    2: "s' = t\<lparr>test_episode_rewards := r2, trace := trace t @ e2\<rparr>"
       "\<forall>e\<in>set e2. phase_of e = EVALUATE"
    by blast
  have "s' = s\<lparr>test_episode_rewards := r2, trace := trace s @ ([ActDeterministic, TestStep] @ e2)\<rparr>"
    using 1 2(1) by simp
  moreover have "\<forall>e\<in>set ([ActDeterministic, TestStep] @ e2). phase_of e = EVALUATE"
    using 2(2) by auto
  ultimately show ?case by blast
qed

lemma evaluate_effect:
  assumes "evaluate cfg W j s = Inr s'"
  shows "\<exists>rewards evs. s' = s\<lparr>test_episode_rewards := rewards, trace := trace s @ evs\<rparr>
           \<and> (\<forall>e\<in>set evs. phase_of e = EVALUATE)"
proof -
  from evaluate_loop_effect [of cfg W j _ "emit TestReset s" s'] assms obtain r e where
    1: "s' = (emit TestReset s)\<lparr>test_episode_rewards := r, trace := trace (emit TestReset s) @ e\<rparr>"
       "\<forall>x\<in>set e. phase_of x = EVALUATE"
    unfolding evaluate_def by blast
  have "s' = s\<lparr>test_episode_rewards := r, trace := trace s @ (TestReset # e)\<rparr>"
    using 1(1) by (simp add: emit_def)
  moreover have "\<forall>x\<in>set (TestReset # e). phase_of x = EVALUATE"
    using 1(2) by simp
  ultimately show ?thesis by blast
qed

lemma scan_info_Inr:
  assumes "scan_info m (p, info) (bm, r) = Inr (bm', r')"
  shows "bm' = (if info ''bad_transition'' \<noteq> None then bm[p := 0] else bm)"
  using assms
  by (auto simp: scan_info_def bind_def split: if_splits option.splits)

lemma scan_infos_bad_masks:
  "for_each (scan_info m) (enumerate n infos) (bm, r) = Inr (bm', r') \<Longrightarrow>
     length bm' = length bm
     \<and> (\<forall>p<length bm. bm' ! p =
           (if n \<le> p \<and> p < n + length infos \<and> (infos ! (p - n)) ''bad_transition'' \<noteq> None
            then 0 else bm ! p))"
proof (induction infos arbitrary: n bm r)
  case Nil
  then show ?case by simp
next
  case (Cons info infos)
  from Cons.prems obtain bm1 r1 where
    1: "scan_info m (n, info) (bm, r) = Inr (bm1, r1)" and
    rest: "for_each (scan_info m) (enumerate (Suc n) infos) (bm1, r1) = Inr (bm', r')"
    by (auto split: sum.splits)
  note bm1 = scan_info_Inr [OF 1]
  from Cons.IH [OF rest] have
    len: "length bm' = length bm1" and
    ih: "\<And>p. p < length bm1 \<Longrightarrow> bm' ! p =
           (if Suc n \<le> p \<and> p < Suc n + length infos \<and> (infos ! (p - Suc n)) ''bad_transition'' \<noteq> None
            then 0 else bm1 ! p)"
    by blast+
  have l1: "length bm1 = length bm" by (simp add: bm1)
  show ?case
  proof (intro conjI allI impI)
    show "length bm' = length bm" using len l1 by simp
  next
    fix p assume p: "p < length bm"
    show "bm' ! p = (if n \<le> p \<and> p < n + length (info # infos)
                        \<and> ((info # infos) ! (p - n)) ''bad_transition'' \<noteq> None
                     then 0 else bm ! p)"
    proof (cases "p = n")
      case True
      then show ?thesis using ih [of p] p l1 by (simp add: bm1)
    next
      case False
      then have "(info # infos) ! (p - n) = infos ! (p - Suc n)" if "n \<le> p"
        using that by (simp add: nth_Cons')
      then show ?thesis using ih [of p] p l1 False by (auto simp: bm1)
    qed
  qed
qed

lemma collect_step_ax:
  assumes "plot_prob cfg" "use_threshold_sampling cfg" "0 < num_processes cfg"
    and "axes s = [''fig'', ''ax1'', ''ax2'']" and "sampling_threshold s = Some th"
  shows "collect_step cfg W j 0 s = Inl (NameError ''ax'')"
  using assms
  by (simp add: collect_step_def np_stack_rewards_def plot_values_def plot_on_def bind_def
      adaptive_sampling_def threshold_sampling_def Let_def emit_def actor_critic_act_def
      actor_critic_get_value_def split: prod.splits)

subsection \<open>Curriculum, optimization and checkpoint blocks\<close>

text \<open>Lines 291-294 in closed form.\<close>

lemma escalate_curriculum_Inr:
  assumes "escalate_curriculum cfg W s = Inr s'"
  shows "s' = (if use_curriculum cfg then
                 (if float_gt (np_median W (episode_rewards s)) (Fin 900)
                  then s\<lparr>curriculum := Some (the (curriculum s) + 1),
                         trace := trace s @ [Median (episode_rewards s), UpdateCurriculum (the (curriculum s) + 1)]\<rparr>
                  else s\<lparr>trace := trace s @ [Median (episode_rewards s)]\<rparr>)
               else s)"
    and "use_curriculum cfg \<Longrightarrow> float_gt (np_median W (episode_rewards s)) (Fin 900) \<Longrightarrow> curriculum s \<noteq> None"
  using assms
  by (auto simp: escalate_curriculum_def Let_def emit_def split: if_splits option.splits)

lemma advantage_optimize_eq:
  "optimize W j (advantage s) =
     s\<lparr>params := ppo_update W j (params s),
       trace := trace s @ [BootstrapValue, ComputeReturns, AgentUpdate, AfterUpdate]\<rparr>"
  by (simp add: optimize_def advantage_def agent_update_def actor_critic_get_value_def emit_def)

lemma dec_digits_chars: "set (dec_digits n) \<subseteq> set ''0123456789''"
proof (induction n rule: dec_digits.induct)
  case (1 n)
  show ?case
  proof (cases "n < 10")
    case True
    then have "''0123456789'' ! n \<in> set ''0123456789''" by (intro nth_mem) simp
    then show ?thesis using True by (subst dec_digits.simps) simp
  next
    case False
    have "''0123456789'' ! (n mod 10) \<in> set ''0123456789''" by (intro nth_mem) simp
    then show ?thesis using False 1 by (subst dec_digits.simps) simp
  qed
qed

lemma format_d_no_b: "CHR ''b'' \<notin> set (format_d i)"
  using dec_digits_chars [of "nat i"] dec_digits_chars [of "nat (- i)"]
  by (auto simp: format_d_def)

lemma path_join_same_head:
  assumes "path_join a (e @ CHR ''_'' # x) = path_join a (e @ CHR ''_'' # y)"
  shows "x = y"
proof -
  have "hd (e @ CHR ''_'' # x) = hd (e @ CHR ''_'' # y)" by (cases e) simp_all
  with assms show ?thesis by (auto simp: path_join_def split: if_splits)
qed

lemma best_path_not_latest: "path_join (save_dir cfg) (env_name cfg @ ''_latest.pt'') \<noteq> best_path cfg"
  unfolding best_path_def using path_join_same_head [of "save_dir cfg" "env_name cfg" "''latest.pt''" "''best.pt''"]
  by auto

lemma best_path_not_milestone:
  "path_join (save_dir cfg) (env_name cfg @ ''_'' @ format_d i @ ''.pt'') \<noteq> best_path cfg"
proof
  assume "path_join (save_dir cfg) (env_name cfg @ ''_'' @ format_d i @ ''.pt'') = best_path cfg"
  then have "format_d i @ ''.pt'' = ''best'' @ ''.pt''"
    unfolding best_path_def
    using path_join_same_head [of "save_dir cfg" "env_name cfg" "format_d i @ ''.pt''" "''best.pt''"]
    by simp
  then have "format_d i = ''best''" by (simp only: append_same_eq)
  then show False using format_d_no_b [of i] by simp
qed

lemma best_path_not_specialist:
  "path_join (save_dir cfg) (env_name cfg @ ''_specialist_'' @ format_d n @ ''.pt'') \<noteq> best_path cfg"
  unfolding best_path_def
  using path_join_same_head [of "save_dir cfg" "env_name cfg" "''specialist_'' @ format_d n @ ''.pt''" "''best.pt''"]
  by auto

lemma fork_specialist_effect:
  assumes "fork_specialist cfg W s = Inr s'"
  shows "\<exists>sp evs. s' = s\<lparr>specialist := sp, trace := trace s @ evs\<rparr>
           \<and> (\<forall>e\<in>set evs. phase_of e = CHECKPOINT_ADAPT) \<and> Save (best_path cfg) \<notin> set evs
           \<and> (if use_specialist cfg \<and> float_gt (np_mean W (episode_rewards s)) (Fin 1000)
              then \<exists>n. specialist s = Some n \<and> sp = Some (n + 1) \<and> specialist_pushes evs = [n + 1]
              else sp = specialist s \<and> specialist_pushes evs = [])"
proof (cases "use_specialist cfg")
  case False
  with assms have "s' = s\<lparr>specialist := specialist s, trace := trace s @ []\<rparr>"
    by (simp add: fork_specialist_def)
  then show ?thesis using False
    by (intro exI [of _ "specialist s"] exI [of _ "[]"]) simp
next
  case True
  show ?thesis
  proof (cases "float_gt (np_mean W (episode_rewards s)) (Fin 1000)")
    case False
    with assms True have "s' = s\<lparr>specialist := specialist s, trace := trace s @ [Mean (episode_rewards s)]\<rparr>"
      by (simp add: fork_specialist_def Let_def emit_def)
    then show ?thesis using False
      by (intro exI [of _ "specialist s"] exI [of _ "[Mean (episode_rewards s)]"])
         (simp add: specialist_pushes_def map_filter_def)
  next
    case gt: True
    with assms True obtain n where n: "specialist s = Some n"
      and s': "s' = s\<lparr>specialist := Some (n + 1), trace := trace s @ [Mean (episode_rewards s),
                 Save (path_join (save_dir cfg) (env_name cfg @ ''_specialist_'' @ format_d n @ ''.pt'')),
                 UpdateSpecialist (n + 1)]\<rparr>"
      by (auto simp: fork_specialist_def Let_def emit_def split: option.splits)
    show ?thesis using True gt n s' best_path_not_specialist [of cfg n]
      by (intro exI [of _ "Some (n + 1)"] exI [of _ "[Mean (episode_rewards s),
                 Save (path_join (save_dir cfg) (env_name cfg @ ''_specialist_'' @ format_d n @ ''.pt'')),
                 UpdateSpecialist (n + 1)]"])
         (simp add: specialist_pushes_def map_filter_def)
  qed
qed

lemma save_best_effect:
  "\<exists>m evs. save_best cfg W s = s\<lparr>max_ep_reward := m, trace := trace s @ evs\<rparr>
     \<and> (\<forall>e\<in>set evs. phase_of e = CHECKPOINT_ADAPT) \<and> specialist_pushes evs = []
     \<and> (if 1 < length (episode_rewards s) \<and> float_gt (np_mean W (episode_rewards s)) (max_ep_reward s)
        then Save (best_path cfg) \<in> set evs \<and> m = np_mean W (episode_rewards s)
        else Save (best_path cfg) \<notin> set evs \<and> m = max_ep_reward s)"
proof (cases "1 < length (episode_rewards s)")
  case False
  then show ?thesis
    by (intro exI [of _ "max_ep_reward s"] exI [of _ "[]"]) (simp add: save_best_def)
next
  case True
  show ?thesis
  proof (cases "float_gt (np_mean W (episode_rewards s)) (max_ep_reward s)")
    case False
    with True show ?thesis
      by (intro exI [of _ "max_ep_reward s"] exI [of _ "[Mean (episode_rewards s)]"])
         (simp add: save_best_def Let_def emit_def specialist_pushes_def map_filter_def)
  next
    case gt: True
    with True show ?thesis
      by (intro exI [of _ "np_mean W (episode_rewards s)"]
            exI [of _ "[Mean (episode_rewards s), Mean (episode_rewards s), Save (best_path cfg)]"])
         (simp add: save_best_def Let_def emit_def specialist_pushes_def map_filter_def)
  qed
qed

lemma log_epoch_effect:
  "\<exists>evs. log_epoch cfg j s = s\<lparr>trace := trace s @ evs\<rparr>
     \<and> (\<forall>e\<in>set evs. phase_of e = CHECKPOINT_ADAPT) \<and> specialist_pushes evs = []
     \<and> Save (best_path cfg) \<notin> set evs"
proof (cases "1 < length (episode_rewards s)")
  case False
  then show ?thesis by (intro exI [of _ "[]"]) (simp add: log_epoch_def)
next
  case True
  then show ?thesis
    by (intro exI [of _ "[LogEpoch (int j + 1) ((int j + 1) * num_processes cfg * num_steps cfg)
                   (episode_rewards s) (test_episode_rewards s)]"])
       (simp add: log_epoch_def emit_def specialist_pushes_def map_filter_def)
qed

lemma checkpoint_adapt_effect:
  assumes "checkpoint_adapt cfg W num_updates j s = Inr s'"
  shows "\<exists>sp nc m evs. s' = s\<lparr>specialist := sp, next_checkpoint := nc, max_ep_reward := m, trace := trace s @ evs\<rparr>
           \<and> (\<forall>e\<in>set evs. phase_of e = CHECKPOINT_ADAPT)
           \<and> (if 1 < length (episode_rewards s) \<and> float_gt (np_mean W (episode_rewards s)) (max_ep_reward s)
              then Save (best_path cfg) \<in> set evs \<and> m = np_mean W (episode_rewards s)
              else Save (best_path cfg) \<notin> set evs \<and> m = max_ep_reward s)
           \<and> (if use_specialist cfg \<and> float_gt (np_mean W (episode_rewards s)) (Fin 1000)
              then \<exists>n. specialist s = Some n \<and> sp = Some (n + 1) \<and> specialist_pushes evs = [n + 1]
              else sp = specialist s \<and> specialist_pushes evs = [])"
proof -
  define periodic where "periodic \<longleftrightarrow>
    (real_of_int ((int j + 1) * num_steps cfg * num_processes cfg) \<ge> next_checkpoint s \<or> int j = num_updates - 1)
      \<and> save_dir cfg \<noteq> []"
  define model_name where "model_name =
    (if periodic then env_name cfg @ ''_'' @ format_d (py_int (next_checkpoint s)) @ ''.pt''
     else env_name cfg @ ''_latest.pt'')"
  define nc where "nc = (if periodic then next_checkpoint s + save_every cfg else next_checkpoint s)"
  define s1 where "s1 = s\<lparr>next_checkpoint := nc\<rparr>"
  have s1_alt: "s1 = (if periodic then s\<lparr>next_checkpoint := next_checkpoint s + save_every cfg\<rparr> else s)"
    by (simp add: s1_def nc_def)
  from assms obtain s2 where s2: "fork_specialist cfg W s1 = Inr s2"
    and s': "s' = log_epoch cfg j (save_best cfg W (emit (Save (path_join (save_dir cfg) model_name)) s2))"
    unfolding checkpoint_adapt_def Let_def bind_Inr_iff periodic_def [symmetric] model_name_def [symmetric]
      s1_alt [symmetric]
    by auto
  have name: "path_join (save_dir cfg) model_name \<noteq> best_path cfg"
    using best_path_not_latest [of cfg] best_path_not_milestone [of cfg "py_int (next_checkpoint s)"]
    by (simp add: model_name_def)
  from fork_specialist_effect [OF s2] obtain sp e1 where
    1: "s2 = s1\<lparr>specialist := sp, trace := trace s1 @ e1\<rparr>"
       "\<forall>e\<in>set e1. phase_of e = CHECKPOINT_ADAPT" "Save (best_path cfg) \<notin> set e1"
       "if use_specialist cfg \<and> float_gt (np_mean W (episode_rewards s1)) (Fin 1000)
        then \<exists>n. specialist s1 = Some n \<and> sp = Some (n + 1) \<and> specialist_pushes e1 = [n + 1]
        else sp = specialist s1 \<and> specialist_pushes e1 = []"
    by blast
  define s3 where "s3 = emit (Save (path_join (save_dir cfg) model_name)) s2"
  from save_best_effect [of cfg W s3] obtain m e2 where
    2: "save_best cfg W s3 = s3\<lparr>max_ep_reward := m, trace := trace s3 @ e2\<rparr>"
       "\<forall>e\<in>set e2. phase_of e = CHECKPOINT_ADAPT" "specialist_pushes e2 = []"
       "if 1 < length (episode_rewards s3) \<and> float_gt (np_mean W (episode_rewards s3)) (max_ep_reward s3)
        then Save (best_path cfg) \<in> set e2 \<and> m = np_mean W (episode_rewards s3)
        else Save (best_path cfg) \<notin> set e2 \<and> m = max_ep_reward s3"
    by blast
  from log_epoch_effect [of cfg j "save_best cfg W s3"] obtain e3 where
    3: "log_epoch cfg j (save_best cfg W s3) = (save_best cfg W s3)\<lparr>trace := trace (save_best cfg W s3) @ e3\<rparr>"
       "\<forall>e\<in>set e3. phase_of e = CHECKPOINT_ADAPT" "specialist_pushes e3 = []"
       "Save (best_path cfg) \<notin> set e3"
    by blast
  let ?evs = "e1 @ [Save (path_join (save_dir cfg) model_name)] @ e2 @ e3"
  have fields: "episode_rewards s3 = episode_rewards s" "max_ep_reward s3 = max_ep_reward s"
    "episode_rewards s1 = episode_rewards s" "specialist s1 = specialist s"
    by (simp_all add: s3_def 1(1) s1_def emit_def)
  have "s' = (save_best cfg W s3)\<lparr>trace := trace (save_best cfg W s3) @ e3\<rparr>"
    using s' 3(1) by (simp add: s3_def)
  then have "s' = s\<lparr>specialist := sp, next_checkpoint := nc, max_ep_reward := m, trace := trace s @ ?evs\<rparr>"
    unfolding 2(1) by (simp add: s3_def 1(1) s1_def emit_def)
  moreover have "\<forall>e\<in>set ?evs. phase_of e = CHECKPOINT_ADAPT"
    using 1(2) 2(2) 3(2) by auto
  moreover have "if 1 < length (episode_rewards s) \<and> float_gt (np_mean W (episode_rewards s)) (max_ep_reward s)
              then Save (best_path cfg) \<in> set ?evs \<and> m = np_mean W (episode_rewards s)
              else Save (best_path cfg) \<notin> set ?evs \<and> m = max_ep_reward s"
    using 1(3) 2(4) 3(4) name unfolding fields by (auto split: if_splits)
  moreover have "if use_specialist cfg \<and> float_gt (np_mean W (episode_rewards s)) (Fin 1000)
              then \<exists>n. specialist s = Some n \<and> sp = Some (n + 1) \<and> specialist_pushes ?evs = [n + 1]
              else sp = specialist s \<and> specialist_pushes ?evs = []"
    using 1(4) 2(3) 3(3) unfolding fields
    by (auto split: if_splits)
  ultimately show ?thesis by blast
qed

subsection \<open>One iteration and the loop\<close>

lemma update_iter_Inr:
  "update_iter cfg W num_updates j s = Inr s' \<longleftrightarrow>
     (\<exists>s1 s2 s3. collect cfg W j (schedule cfg W num_updates j s) = Inr s1
        \<and> evaluate cfg W j s1 = Inr s2 \<and> escalate_curriculum cfg W s2 = Inr s3
        \<and> checkpoint_adapt cfg W num_updates j (optimize W j (advantage s3)) = Inr s')"
  by (simp add: update_iter_def bind_Inr_iff)

text \<open>One iteration as a whole: what it may change and the events it adds, block by block.\<close>

lemma update_iter_effect:
  assumes "update_iter cfg W num_updates j s = Inr s'"
  shows "\<exists>r tr cur sp nc m c e a k.
     s' = s\<lparr>params := ppo_update W j (params s), curriculum := cur, specialist := sp,
             episode_rewards := r, test_episode_rewards := tr, next_checkpoint := nc,
             max_ep_reward := m,
             trace := trace s @ [SetLR (scheduled_lr cfg W num_updates j), DeepCopy] @ c @ e @ a
                        @ [BootstrapValue, ComputeReturns, AgentUpdate, AfterUpdate] @ k\<rparr>
     \<and> (\<forall>x\<in>set c. phase_of x = COLLECT) \<and> count_list c EnvStep = nat (num_steps cfg)
     \<and> (\<forall>x\<in>set e. phase_of x = EVALUATE)
     \<and> (if use_curriculum cfg \<and> float_gt (np_median W r) (Fin 900)
        then \<exists>n. curriculum s = Some n \<and> cur = Some (n + 1) \<and> a = [Median r, UpdateCurriculum (n + 1)]
        else cur = curriculum s \<and> a = (if use_curriculum cfg then [Median r] else []))
     \<and> (\<forall>x\<in>set k. phase_of x = CHECKPOINT_ADAPT)
     \<and> (if 1 < length r \<and> float_gt (np_mean W r) (max_ep_reward s)
        then Save (best_path cfg) \<in> set k \<and> m = np_mean W r
        else Save (best_path cfg) \<notin> set k \<and> m = max_ep_reward s)
     \<and> (if use_specialist cfg \<and> float_gt (np_mean W r) (Fin 1000)
        then \<exists>n. specialist s = Some n \<and> sp = Some (n + 1) \<and> specialist_pushes k = [n + 1]
        else sp = specialist s \<and> specialist_pushes k = [])"
proof -
  from assms obtain s1 s2 s3 where
    c: "collect cfg W j (schedule cfg W num_updates j s) = Inr s1" and
    e: "evaluate cfg W j s1 = Inr s2" and
    a: "escalate_curriculum cfg W s2 = Inr s3" and
    k: "checkpoint_adapt cfg W num_updates j (optimize W j (advantage s3)) = Inr s'"
    unfolding update_iter_Inr by blast
  let ?lr = "[SetLR (scheduled_lr cfg W num_updates j), DeepCopy]"
  let ?opt = "[BootstrapValue, ComputeReturns, AgentUpdate, AfterUpdate]"
  from collect_effect [OF c] obtain r ec where
    1: "s1 = s\<lparr>episode_rewards := r, trace := trace s @ ?lr @ ec\<rparr>"
       "\<forall>x\<in>set ec. phase_of x = COLLECT" "count_list ec EnvStep = nat (num_steps cfg)"
    by (auto simp: schedule_eq)
  from evaluate_effect [OF e] obtain tr ee where
    2: "s2 = s1\<lparr>test_episode_rewards := tr, trace := trace s1 @ ee\<rparr>"
       "\<forall>x\<in>set ee. phase_of x = EVALUATE"
    by blast
  have r2: "episode_rewards s2 = r" "curriculum s2 = curriculum s"
    by (simp_all add: 1(1) 2(1))
  define cur where "cur = (if use_curriculum cfg \<and> float_gt (np_median W r) (Fin 900)
     then Some (the (curriculum s) + 1) else curriculum s)"
  define ea where "ea = (if use_curriculum cfg then
     (if float_gt (np_median W r) (Fin 900) then [Median r, UpdateCurriculum (the (curriculum s) + 1)]
      else [Median r]) else [])"
  have cur2: "cur = (if use_curriculum cfg \<and> float_gt (np_median W r) (Fin 900)
     then Some (the (curriculum s2) + 1) else curriculum s2)"
    by (simp add: cur_def r2)
  have 3: "s3 = s2\<lparr>curriculum := cur, trace := trace s2 @ ea\<rparr>"
    using escalate_curriculum_Inr(1) [OF a] unfolding r2(1) cur2 ea_def by (simp add: r2(2))
  have cur_a: "if use_curriculum cfg \<and> float_gt (np_median W r) (Fin 900)
        then \<exists>n. curriculum s = Some n \<and> cur = Some (n + 1) \<and> ea = [Median r, UpdateCurriculum (n + 1)]
        else cur = curriculum s \<and> ea = (if use_curriculum cfg then [Median r] else [])"
    using escalate_curriculum_Inr(2) [OF a] unfolding r2 cur_def ea_def by auto
  define s4 where "s4 = optimize W j (advantage s3)"
  have 4: "s4 = s3\<lparr>params := ppo_update W j (params s3), trace := trace s3 @ ?opt\<rparr>"
    unfolding s4_def by (rule advantage_optimize_eq)
  have f4: "episode_rewards s4 = r" "max_ep_reward s4 = max_ep_reward s" "specialist s4 = specialist s"
    by (simp_all add: 4 3 2(1) 1(1))
  from checkpoint_adapt_effect [OF k [folded s4_def]] obtain sp nc m ek where
    5: "s' = s4\<lparr>specialist := sp, next_checkpoint := nc, max_ep_reward := m, trace := trace s4 @ ek\<rparr>"
       "\<forall>x\<in>set ek. phase_of x = CHECKPOINT_ADAPT"
       "if 1 < length r \<and> float_gt (np_mean W r) (max_ep_reward s)
        then Save (best_path cfg) \<in> set ek \<and> m = np_mean W r
        else Save (best_path cfg) \<notin> set ek \<and> m = max_ep_reward s"
       "if use_specialist cfg \<and> float_gt (np_mean W r) (Fin 1000)
        then \<exists>n. specialist s = Some n \<and> sp = Some (n + 1) \<and> specialist_pushes ek = [n + 1]
        else sp = specialist s \<and> specialist_pushes ek = []"
    unfolding f4 by blast
  have "s' = s\<lparr>params := ppo_update W j (params s), curriculum := cur, specialist := sp,
             episode_rewards := r, test_episode_rewards := tr, next_checkpoint := nc,
             max_ep_reward := m, trace := trace s @ ?lr @ ec @ ee @ ea @ ?opt @ ek\<rparr>"
    by (simp add: 5(1) 4 3 2(1) 1(1))
  with 1(2,3) 2(2) cur_a 5(2,3,4) show ?thesis by blast
qed

lemma update_iter_counts:
  assumes "update_iter cfg W num_updates j s = Inr s'"
  shows "count_list (trace s') AgentUpdate = count_list (trace s) AgentUpdate + 1"
    and "count_list (trace s') EnvStep = count_list (trace s) EnvStep + nat (num_steps cfg)"
proof -
  from update_iter_effect [OF assms] obtain r tr cur sp nc m c e a k where
    s': "s' = s\<lparr>params := ppo_update W j (params s), curriculum := cur, specialist := sp,
             episode_rewards := r, test_episode_rewards := tr, next_checkpoint := nc,
             max_ep_reward := m,
             trace := trace s @ [SetLR (scheduled_lr cfg W num_updates j), DeepCopy] @ c @ e @ a
                        @ [BootstrapValue, ComputeReturns, AgentUpdate, AfterUpdate] @ k\<rparr>"
    and c: "\<forall>x\<in>set c. phase_of x = COLLECT" "count_list c EnvStep = nat (num_steps cfg)"
    and e: "\<forall>x\<in>set e. phase_of x = EVALUATE"
    and a: "if use_curriculum cfg \<and> float_gt (np_median W r) (Fin 900)
        then \<exists>n. curriculum s = Some n \<and> cur = Some (n + 1) \<and> a = [Median r, UpdateCurriculum (n + 1)]
        else cur = curriculum s \<and> a = (if use_curriculum cfg then [Median r] else [])"
    and k: "\<forall>x\<in>set k. phase_of x = CHECKPOINT_ADAPT"
    by blast
  have a': "\<forall>x\<in>set a. phase_of x = ADAPT_CURRICULUM"
    using a by (auto split: if_splits)
  have z: "count_list c AgentUpdate = 0" "count_list e AgentUpdate = 0" "count_list a AgentUpdate = 0"
    "count_list k AgentUpdate = 0" "count_list e EnvStep = 0" "count_list a EnvStep = 0"
    "count_list k EnvStep = 0"
    using count_list_phase [OF c(1), of AgentUpdate] count_list_phase [OF e, of AgentUpdate]
      count_list_phase [OF a', of AgentUpdate] count_list_phase [OF k, of AgentUpdate]
      count_list_phase [OF e, of EnvStep] count_list_phase [OF a', of EnvStep]
      count_list_phase [OF k, of EnvStep]
    by simp_all
  show "count_list (trace s') AgentUpdate = count_list (trace s) AgentUpdate + 1"
    by (simp add: s' z)
  show "count_list (trace s') EnvStep = count_list (trace s) EnvStep + nat (num_steps cfg)"
    by (simp add: s' z c(2))
qed

lemma train_loop_counts:
  "train_loop cfg W num_updates js s = Inr s' \<Longrightarrow>
     count_list (trace s') AgentUpdate = count_list (trace s) AgentUpdate + length js
     \<and> count_list (trace s') EnvStep = count_list (trace s) EnvStep + length js * nat (num_steps cfg)"
proof (induction js arbitrary: s)
  case Nil
  then show ?case by (simp add: train_loop_def)
next
  case (Cons j js)
  from Cons.prems obtain t where t: "update_iter cfg W num_updates j s = Inr t"
    and rest: "train_loop cfg W num_updates js t = Inr s'"
    by (auto simp: train_loop_def split: sum.splits)
  from Cons.IH [OF rest] update_iter_counts [OF t] show ?case by simp
qed

lemma init_counters:
  assumes "init cfg p0 = Inr (s0, num_updates)"
  shows "curriculum s0 = (if use_curriculum cfg then Some 0 else None)"
    and "specialist s0 = (if use_specialist cfg then Some 0 else None)"
  using assms by (auto simp: init_def Let_def emit_def split: if_splits)

lemma update_iter_counters:
  assumes "update_iter cfg W num_updates j s = Inr s'"
  shows "curriculum s' = curriculum s \<or> (\<exists>n. curriculum s = Some n \<and> curriculum s' = Some (n + 1))"
    and "specialist s' = specialist s \<or> (\<exists>n. specialist s = Some n \<and> specialist s' = Some (n + 1))"
proof -
  from update_iter_effect [OF assms] obtain r tr cur sp nc m c e a k where
    s': "s' = s\<lparr>params := ppo_update W j (params s), curriculum := cur, specialist := sp,
             episode_rewards := r, test_episode_rewards := tr, next_checkpoint := nc,
             max_ep_reward := m,
             trace := trace s @ [SetLR (scheduled_lr cfg W num_updates j), DeepCopy] @ c @ e @ a
                        @ [BootstrapValue, ComputeReturns, AgentUpdate, AfterUpdate] @ k\<rparr>"
    and a: "if use_curriculum cfg \<and> float_gt (np_median W r) (Fin 900)
        then \<exists>n. curriculum s = Some n \<and> cur = Some (n + 1) \<and> a = [Median r, UpdateCurriculum (n + 1)]
        else cur = curriculum s \<and> a = (if use_curriculum cfg then [Median r] else [])"
    and k: "if use_specialist cfg \<and> float_gt (np_mean W r) (Fin 1000)
        then \<exists>n. specialist s = Some n \<and> sp = Some (n + 1) \<and> specialist_pushes k = [n + 1]
        else sp = specialist s \<and> specialist_pushes k = []"
    by blast
  have f: "curriculum s' = cur" "specialist s' = sp" by (simp_all add: s')
  show "curriculum s' = curriculum s \<or> (\<exists>n. curriculum s = Some n \<and> curriculum s' = Some (n + 1))"
    unfolding f using a by (auto split: if_splits)
  show "specialist s' = specialist s \<or> (\<exists>n. specialist s = Some n \<and> specialist s' = Some (n + 1))"
    unfolding f using k by (auto split: if_splits)
qed

lemma update_iter_counters_exact:
  assumes "update_iter cfg W num_updates j s = Inr s'"
  shows "if use_curriculum cfg \<and> float_gt (np_median W (episode_rewards s')) (Fin 900)
         then \<exists>n. curriculum s = Some n \<and> curriculum s' = Some (n + 1)
         else curriculum s' = curriculum s"
    and "if use_specialist cfg \<and> float_gt (np_mean W (episode_rewards s')) (Fin 1000)
         then \<exists>n. specialist s = Some n \<and> specialist s' = Some (n + 1)
         else specialist s' = specialist s"
proof -
  from update_iter_effect [OF assms] obtain r tr cur sp nc m c e a k where
    s': "s' = s\<lparr>params := ppo_update W j (params s), curriculum := cur, specialist := sp,
             episode_rewards := r, test_episode_rewards := tr, next_checkpoint := nc,
             max_ep_reward := m,
             trace := trace s @ [SetLR (scheduled_lr cfg W num_updates j), DeepCopy] @ c @ e @ a
                        @ [BootstrapValue, ComputeReturns, AgentUpdate, AfterUpdate] @ k\<rparr>"
    and a: "if use_curriculum cfg \<and> float_gt (np_median W r) (Fin 900)
        then \<exists>n. curriculum s = Some n \<and> cur = Some (n + 1) \<and> a = [Median r, UpdateCurriculum (n + 1)]
        else cur = curriculum s \<and> a = (if use_curriculum cfg then [Median r] else [])"
    and k: "if use_specialist cfg \<and> float_gt (np_mean W r) (Fin 1000)
        then \<exists>n. specialist s = Some n \<and> sp = Some (n + 1) \<and> specialist_pushes k = [n + 1]
        else sp = specialist s \<and> specialist_pushes k = []"
    by blast
  have f: "curriculum s' = cur" "specialist s' = sp" "episode_rewards s' = r" by (simp_all add: s')
  show "if use_curriculum cfg \<and> float_gt (np_median W (episode_rewards s')) (Fin 900)
         then \<exists>n. curriculum s = Some n \<and> curriculum s' = Some (n + 1)
         else curriculum s' = curriculum s"
    unfolding f using a by (auto split: if_splits)
  show "if use_specialist cfg \<and> float_gt (np_mean W (episode_rewards s')) (Fin 1000)
         then \<exists>n. specialist s = Some n \<and> specialist s' = Some (n + 1)
         else specialist s' = specialist s"
    unfolding f using k by (auto split: if_splits)
qed

lemma counter_within_step:
  assumes "t = s0 \<or> (\<exists>n. s0 = Some n \<and> t = Some (n + 1))" and "counter_within t n now"
  shows "counter_within s0 (Suc n) now"
  using assms by (cases s0; cases now) (auto simp: counter_within_def)

lemma train_loop_counters:
  "train_loop cfg W num_updates js s = Inr s' \<Longrightarrow>
     counter_within (curriculum s) (length js) (curriculum s')
     \<and> counter_within (specialist s) (length js) (specialist s')"
proof (induction js arbitrary: s)
  case Nil
  then show ?case by (simp add: train_loop_def counter_within_def split: option.splits)
next
  case (Cons j js)
  from Cons.prems obtain t where t: "update_iter cfg W num_updates j s = Inr t"
    and rest: "train_loop cfg W num_updates js t = Inr s'"
    by (auto simp: train_loop_def split: sum.splits)
  from Cons.IH [OF rest] update_iter_counters [OF t] show ?case
    using counter_within_step [of "curriculum t" "curriculum s" "length js" "curriculum s'"]
      counter_within_step [of "specialist t" "specialist s" "length js" "specialist s'"]
    by simp
qed

lemma num_updates_pos:
  assumes "0 < ns" "0 < np" "real_of_int (ns * np) \<le> nf"
  shows "1 \<le> py_int nf div ns div np"
proof -
  have "0 \<le> nf" using assms by (smt (verit) mult_pos_pos of_int_0_less_iff)
  then have pi: "py_int nf = \<lfloor>nf\<rfloor>" by (simp add: py_int_def)
  have "ns * np \<le> \<lfloor>nf\<rfloor>" using assms(3) by (simp add: le_floor_iff)
  then have "(np * ns) div ns \<le> \<lfloor>nf\<rfloor> div ns"
    using assms(1) by (intro zdiv_mono1) (simp_all add: mult.commute)
  then have "np \<le> \<lfloor>nf\<rfloor> div ns" using assms(1) by simp
  then have "np div np \<le> \<lfloor>nf\<rfloor> div ns div np"
    using assms(2) by (intro zdiv_mono1) simp_all
  then show ?thesis using assms(2) by (simp add: pi)
qed

lemma num_updates_floor:
  assumes "0 < ns" "0 < np" "0 \<le> nf"
  shows "py_int nf div ns div np = \<lfloor>nf / real_of_int ns / real_of_int np\<rfloor>"
    and "0 \<le> py_int nf div ns div np"
    and "real_of_int (py_int nf div ns div np * ns * np) \<le> nf"
proof -
  have pi: "py_int nf = \<lfloor>nf\<rfloor>" using assms(3) by (simp add: py_int_def)
  have "\<lfloor>nf / real_of_int ns / real_of_int np\<rfloor> = \<lfloor>nf / real_of_int ns\<rfloor> div np"
    by (rule floor_divide_real_eq_div) (use assms(2) in simp)
  also have "\<lfloor>nf / real_of_int ns\<rfloor> = \<lfloor>nf\<rfloor> div ns"
    by (rule floor_divide_real_eq_div) (use assms(1) in simp)
  finally show "py_int nf div ns div np = \<lfloor>nf / real_of_int ns / real_of_int np\<rfloor>"
    by (simp add: pi)
  have f0: "0 \<le> \<lfloor>nf\<rfloor>" using assms(3) by simp
  then have "0 \<le> \<lfloor>nf\<rfloor> div ns" using assms(1) by (simp add: pos_imp_zdiv_nonneg_iff)
  then show "0 \<le> py_int nf div ns div np" using assms(2) by (simp add: pi pos_imp_zdiv_nonneg_iff)
  have dm: "a div b * b \<le> a" if "0 < b" for a b :: int
    using pos_mod_sign [OF that, of a] minus_mod_eq_div_mult [of a b] by linarith
  have "\<lfloor>nf\<rfloor> div ns div np * np \<le> \<lfloor>nf\<rfloor> div ns"
    using assms(2) by (rule dm)
  then have "\<lfloor>nf\<rfloor> div ns div np * np * ns \<le> \<lfloor>nf\<rfloor> div ns * ns"
    using assms(1) by (simp add: mult_right_mono)
  also have "\<dots> \<le> \<lfloor>nf\<rfloor>"
    using assms(1) by (rule dm)
  finally have "\<lfloor>nf\<rfloor> div ns div np * ns * np \<le> \<lfloor>nf\<rfloor>" by (simp add: ac_simps)
  then have "real_of_int (\<lfloor>nf\<rfloor> div ns div np * ns * np) \<le> real_of_int \<lfloor>nf\<rfloor>"
    by (simp only: of_int_le_iff)
  also have "\<dots> \<le> nf" by simp
  finally show "real_of_int (py_int nf div ns div np * ns * np) \<le> nf" by (simp add: pi)
qed

subsection \<open>Runs that raise nothing\<close>

lemma scan_info_total:
  assumes "n < length bm"
    and "case info ''episode'' of None \<Rightarrow> True | Some ep \<Rightarrow> ep ''r'' \<noteq> None"
  shows "\<exists>bm1 r1. scan_info m (n, info) (bm, r) = Inr (bm1, r1) \<and> length bm1 = length bm"
  using assms
  by (cases "info ''bad_transition''"; cases "info ''episode''")
     (auto simp: scan_info_def bind_def)

lemma scan_infos_total:
  "infos_ok infos \<Longrightarrow> n + length infos \<le> length bm \<Longrightarrow>
     \<exists>bm' r'. for_each (scan_info m) (enumerate n infos) (bm, r) = Inr (bm', r')"
proof (induction infos arbitrary: n bm r)
  case Nil
  then show ?case by simp
next
  case (Cons info infos)
  from Cons.prems have ok: "infos_ok infos" and n: "n < length bm"
    and ep: "case info ''episode'' of None \<Rightarrow> True | Some ep \<Rightarrow> ep ''r'' \<noteq> None"
    by (simp_all add: infos_ok_def)
  from scan_info_total [of n bm info m r, OF n ep] obtain bm1 r1 where 1: "scan_info m (n, info) (bm, r) = Inr (bm1, r1)"
    and l: "length bm1 = length bm"
    by blast
  from Cons.prems(2) l have "Suc n + length infos \<le> length bm1" by simp
  from Cons.IH [OF ok this, of r1] 1 show ?case by simp
qed

lemma scan_test_infos_total:
  "infos_ok infos \<Longrightarrow> \<exists>r'. for_each (scan_test_info m) infos r = Inr r'"
proof (induction infos arbitrary: r)
  case Nil
  then show ?case by simp
next
  case (Cons info infos)
  from Cons.prems have ok: "infos_ok infos"
    and ep: "case info ''episode'' of None \<Rightarrow> True | Some ep \<Rightarrow> ep ''r'' \<noteq> None"
    by (simp_all add: infos_ok_def)
  from ep obtain r1 where 1: "scan_test_info m info r = Inr r1"
    by (auto simp: scan_test_info_def split: option.splits)
  from Cons.IH [OF ok, of r1] 1 show ?case by simp
qed

lemma plot_values_total:
  assumes "bound_ok cfg s"
  shows "\<exists>s'. plot_values cfg step s = Inr s'"
  using assms
  by (simp add: plot_values_def plot_on_def bind_def emit_def actor_critic_get_value_def bound_ok_def)

lemma threshold_sampling_total:
  assumes "bound_ok cfg s" and "\<not> (plot_prob cfg \<and> use_threshold_sampling cfg)"
  shows "\<exists>s'. threshold_sampling cfg step s = Inr s'"
  using assms
  by (auto simp: threshold_sampling_def Let_def bind_def emit_def actor_critic_get_value_def bound_ok_def
      split: option.splits)

lemma collect_step_total:
  assumes "bound_ok cfg s" and "\<not> (plot_prob cfg \<and> use_threshold_sampling cfg)" and "world_ok cfg W"
    and "0 < num_processes cfg"
  shows "\<exists>s'. collect_step cfg W j step s = Inr s' \<and> bound_ok cfg s'"
proof -
  obtain dn infos where W: "env_step W j step = (dn, infos)" by (cases "env_step W j step")
  from assms(3) W have infos: "length infos \<le> nat (num_processes cfg)" "infos_ok infos"
    unfolding world_ok_def by (metis snd_conv)+
  have b0: "bound_ok cfg (emit EnvStep (actor_critic_act False s))"
    using assms(1) by (simp add: bound_ok_def emit_def actor_critic_act_def)
  have st: "np_stack_rewards (num_processes cfg) (emit EnvStep (actor_critic_act False s))
              = Inr (emit EnvStep (actor_critic_act False s))"
    using assms(4) by simp
  from plot_values_total [OF b0] obtain s1 where
    s1: "plot_values cfg step (emit EnvStep (actor_critic_act False s)) = Inr s1" by blast
  from plot_values_effect [OF s1] b0 have b1: "bound_ok cfg s1"
    by (auto simp: bound_ok_def)
  from adaptive_sampling_effect [of cfg s1] b1 have b2: "bound_ok cfg (adaptive_sampling cfg s1)"
    by (auto simp: bound_ok_def)
  from threshold_sampling_total [OF b2 assms(2)] obtain s2 where
    s2: "threshold_sampling cfg step (adaptive_sampling cfg s1) = Inr s2" by blast
  from threshold_sampling_effect [OF s2] b2 have b3: "bound_ok cfg s2"
    by (auto simp: bound_ok_def)
  from scan_infos_total [OF infos(2), of 0 "replicate (nat (num_processes cfg)) 1"
      "nat (num_processes cfg)" "episode_rewards s2"] infos(1)
  obtain bm r where scan: "for_each (scan_info (nat (num_processes cfg))) (enumerate 0 infos)
      (replicate (nat (num_processes cfg)) 1, episode_rewards s2) = Inr (bm, r)"
    by auto
  have "collect_step cfg W j step s = Inr (emit (Insert (masks_of dn) bm) (s2\<lparr>episode_rewards := r\<rparr>))"
    by (simp add: collect_step_def W st s1 s2 scan bind_def)
  moreover have "bound_ok cfg (emit (Insert (masks_of dn) bm) (s2\<lparr>episode_rewards := r\<rparr>))"
    using b3 by (simp add: bound_ok_def emit_def)
  ultimately show ?thesis by blast
qed

lemma collect_total:
  assumes "bound_ok cfg s" and "\<not> (plot_prob cfg \<and> use_threshold_sampling cfg)" and "world_ok cfg W"
    and "0 < num_processes cfg"
  shows "\<exists>s'. collect cfg W j s = Inr s' \<and> bound_ok cfg s'"
  unfolding collect_def
proof (rule for_each_total [where P = "bound_ok cfg"])
  show "bound_ok cfg s" by fact
next
  fix step and t :: "'a state" assume "bound_ok cfg t"
  then show "\<exists>t'. collect_step cfg W j step t = Inr t' \<and> bound_ok cfg t'"
    using assms(2,3,4) by (rule collect_step_total)
qed

lemma evaluate_step_total:
  assumes "bound_ok cfg s" and "world_ok cfg W" and "0 < num_tests cfg"
  shows "\<exists>s'. evaluate_step cfg W j step s = Inr s' \<and> bound_ok cfg s'"
proof -
  from assms(2) have "infos_ok (test_step W j step)" by (simp add: world_ok_def)
  from scan_test_infos_total [OF this] obtain r where
    "for_each (scan_test_info (nat (num_tests cfg))) (test_step W j step)
       (test_episode_rewards (emit TestStep (actor_critic_act True s))) = Inr r"
    by blast
  then have "evaluate_step cfg W j step s = Inr ((emit TestStep (actor_critic_act True s))\<lparr>test_episode_rewards := r\<rparr>)"
    using assms(3) by (simp add: evaluate_step_def np_stack_rewards_def bind_def)
  moreover have "bound_ok cfg ((emit TestStep (actor_critic_act True s))\<lparr>test_episode_rewards := r\<rparr>)"
    using assms(1) by (simp add: bound_ok_def emit_def actor_critic_act_def)
  ultimately show ?thesis by blast
qed

lemma evaluate_total:
  assumes "bound_ok cfg s" and "world_ok cfg W" and "0 < num_tests cfg"
  shows "\<exists>s'. evaluate cfg W j s = Inr s' \<and> bound_ok cfg s'"
  unfolding evaluate_def
proof (rule for_each_total [where P = "bound_ok cfg"])
  show "bound_ok cfg (emit TestReset s)" using assms(1) by (simp add: bound_ok_def emit_def)
next
  fix step and t :: "'a state" assume "bound_ok cfg t"
  then show "\<exists>t'. evaluate_step cfg W j step t = Inr t' \<and> bound_ok cfg t'"
    using assms(2,3) by (rule evaluate_step_total)
qed

lemma escalate_curriculum_total:
  assumes "bound_ok cfg s"
  shows "\<exists>s'. escalate_curriculum cfg W s = Inr s' \<and> bound_ok cfg s'"
  using assms
  by (auto simp: escalate_curriculum_def Let_def emit_def bound_ok_def split: option.splits)

lemma fork_specialist_total:
  assumes "bound_ok cfg s"
  shows "\<exists>s'. fork_specialist cfg W s = Inr s'"
proof (cases "use_specialist cfg")
  case True
  with assms obtain n where "specialist s = Some n" by (auto simp: bound_ok_def)
  then show ?thesis by (simp add: fork_specialist_def Let_def emit_def)
next
  case False
  then show ?thesis by (simp add: fork_specialist_def)
qed

lemma checkpoint_adapt_total:
  assumes "bound_ok cfg s"
  shows "\<exists>s'. checkpoint_adapt cfg W num_updates j s = Inr s' \<and> bound_ok cfg s'"
proof -
  define s1 where "s1 =
    (if (real_of_int ((int j + 1) * num_steps cfg * num_processes cfg) \<ge> next_checkpoint s
          \<or> int j = num_updates - 1) \<and> save_dir cfg \<noteq> []
     then s\<lparr>next_checkpoint := next_checkpoint s + save_every cfg\<rparr> else s)"
  have "bound_ok cfg s1" using assms by (simp add: s1_def bound_ok_def)
  from fork_specialist_total [OF this] obtain s2 where s2: "fork_specialist cfg W s1 = Inr s2" by blast
  have "\<exists>s'. checkpoint_adapt cfg W num_updates j s = Inr s'"
    unfolding checkpoint_adapt_def Let_def s1_def [symmetric] by (simp add: s2 bind_def)
  then obtain s' where s': "checkpoint_adapt cfg W num_updates j s = Inr s'" by blast
  from checkpoint_adapt_effect [OF s'] obtain sp nc m evs where
    eq: "s' = s\<lparr>specialist := sp, next_checkpoint := nc, max_ep_reward := m, trace := trace s @ evs\<rparr>"
    and sp: "if use_specialist cfg \<and> float_gt (np_mean W (episode_rewards s)) (Fin 1000)
              then \<exists>n. specialist s = Some n \<and> sp = Some (n + 1) \<and> specialist_pushes evs = [n + 1]
              else sp = specialist s \<and> specialist_pushes evs = []"
    by blast
  have "specialist s \<noteq> None \<longrightarrow> sp \<noteq> None"
  proof (cases "use_specialist cfg \<and> float_gt (np_mean W (episode_rewards s)) (Fin 1000)")
    case True
    with sp show ?thesis by auto
  next
    case False
    with sp show ?thesis by simp
  qed
  then have "bound_ok cfg s'" using assms by (simp add: eq bound_ok_def)
  with s' show ?thesis by blast
qed

lemma update_iter_total:
  assumes "bound_ok cfg s" and "\<not> (plot_prob cfg \<and> use_threshold_sampling cfg)" and "world_ok cfg W"
    and "0 < num_processes cfg" and "0 < num_tests cfg"
  shows "\<exists>s'. update_iter cfg W num_updates j s = Inr s' \<and> bound_ok cfg s'"
proof -
  have "bound_ok cfg (schedule cfg W num_updates j s)"
    using assms(1) by (simp add: schedule_eq bound_ok_def)
  from collect_total [OF this assms(2,3,4)] obtain s1 where
    c: "collect cfg W j (schedule cfg W num_updates j s) = Inr s1" and b1: "bound_ok cfg s1" by blast
  from evaluate_total [OF b1 assms(3,5)] obtain s2 where
    e: "evaluate cfg W j s1 = Inr s2" and b2: "bound_ok cfg s2" by blast
  from escalate_curriculum_total [OF b2] obtain s3 where
    a: "escalate_curriculum cfg W s2 = Inr s3" and b3: "bound_ok cfg s3" by blast
  have "bound_ok cfg (optimize W j (advantage s3))"
    using b3 by (simp add: advantage_optimize_eq bound_ok_def)
  from checkpoint_adapt_total [OF this] obtain s' where
    k: "checkpoint_adapt cfg W num_updates j (optimize W j (advantage s3)) = Inr s'" and b: "bound_ok cfg s'"
    by blast
  from c e a k have "update_iter cfg W num_updates j s = Inr s'"
    unfolding update_iter_Inr by blast
  with b show ?thesis by blast
qed

lemma train_loop_total:
  assumes "bound_ok cfg s" and "\<not> (plot_prob cfg \<and> use_threshold_sampling cfg)" and "world_ok cfg W"
    and "0 < num_processes cfg" and "0 < num_tests cfg"
  shows "\<exists>s'. train_loop cfg W num_updates js s = Inr s' \<and> bound_ok cfg s'"
  unfolding train_loop_def
proof (rule for_each_total [where P = "bound_ok cfg"])
  show "bound_ok cfg s" by fact
next
  fix j and t :: "'a state" assume "bound_ok cfg t"
  then show "\<exists>t'. update_iter cfg W num_updates j t = Inr t' \<and> bound_ok cfg t'"
    using assms(2,3,4,5) by (rule update_iter_total)
qed

lemma init_total:
  assumes "0 < num_steps cfg" "0 < num_processes cfg" "0 \<le> num_tests cfg"
  shows "\<exists>s0. init cfg p0 = Inr (s0, py_int (num_frames cfg) div num_steps cfg div num_processes cfg)
           \<and> bound_ok cfg s0 \<and> count_list (trace s0) AgentUpdate = 0 \<and> count_list (trace s0) EnvStep = 0"
  using assms
  by (simp add: init_def Let_def emit_def bound_ok_def)

subsection \<open>The sample runs, evaluated\<close>

lemma demo_init: "init demo_cfg 0 = Inr (demo_state, 2)"
  by (simp add: init_def demo_cfg_def demo_state_def emit_def py_int_def)

lemma demo_update: "update_iter demo_cfg demo_world 2 0 demo_state = Inr demo_state1"
  by code_simp

lemma demo_new_events:
  "new_events demo_state demo_state1 = [SetLR 1, DeepCopy, Act, EnvStep, Insert [0, 1] [1, 0],
       TestReset, ActDeterministic, TestStep, Median [1000], UpdateCurriculum 1, BootstrapValue,
       ComputeReturns, AgentUpdate, AfterUpdate, Save ''models/Cassie_latest.pt'']"
  by (simp add: new_events_def demo_state_def demo_state1_def)

lemma demo_update2: "update_iter demo_cfg demo_world 2 1 demo_state1 = Inr demo_state2"
  by code_simp

lemma demo_new_events2:
  "new_events demo_state1 demo_state2 = [SetLR (99 / 100), DeepCopy, Act, EnvStep, Insert [0, 1] [1, 0],
       TestReset, ActDeterministic, TestStep, Median [1000, 1000], UpdateCurriculum 2,
       BootstrapValue, ComputeReturns, AgentUpdate, AfterUpdate, Save ''models/Cassie_100.pt'',
       Mean [1000, 1000], Mean [1000, 1000], Save ''models/Cassie_best.pt'',
       LogEpoch 2 4 [1000, 1000] []]"
  by (simp add: new_events_def demo_state1_def demo_state2_def)

lemma demo_best_path: "best_path demo_cfg = ''models/Cassie_best.pt''"
  by (simp add: best_path_def path_join_def demo_cfg_def)

lemma demo_aggregates:
  "np_median demo_world [1000] = Fin 1000" "np_median demo_world [1000, 1000] = Fin 1000"
  "np_mean demo_world [1000] = Fin 1000" "np_mean demo_world [1000, 1000] = Fin 1000"
  "np_median rich_world [1200] = Fin 1200" "np_median rich_world [1200, 1200] = Fin 1200"
  "np_mean rich_world [1200] = Fin 1200" "np_mean rich_world [1200, 1200] = Fin 1200"
  by (simp_all add: demo_world_def rich_world_def sample_aggregate_def)

lemma fork_init: "init fork_cfg 0 = Inr (fork_state, 2)"
  by (simp add: init_def fork_cfg_def demo_cfg_def fork_state_def emit_def py_int_def)

lemma fork_update: "update_iter fork_cfg rich_world 2 0 fork_state = Inr fork_state1"
  by code_simp

lemma fork_update2: "update_iter fork_cfg rich_world 2 1 fork_state1 = Inr fork_state2"
  by code_simp

lemma fork_loop1: "train_loop fork_cfg rich_world 2 [0] fork_state = Inr fork_state1"
  by (simp add: train_loop_def fork_update)

lemma fork_fields:
  "use_curriculum fork_cfg" "use_specialist fork_cfg"
  "curriculum fork_state = Some 0" "curriculum fork_state1 = Some 1" "curriculum fork_state2 = Some 2"
  "specialist fork_state = Some 0" "specialist fork_state1 = Some 1" "specialist fork_state2 = Some 2"
  "episode_rewards fork_state2 = [1200, 1200]"
  by (simp_all add: fork_cfg_def demo_cfg_def fork_state_def fork_state1_def fork_state2_def)

lemma demo_fields:
  "use_curriculum demo_cfg" "\<not> use_specialist demo_cfg"
  "curriculum demo_state = Some 0" "curriculum demo_state1 = Some 1"
  "specialist demo_state = None" "specialist demo_state1 = None"
  "episode_rewards demo_state1 = [1000]"
  "max_ep_reward demo_state = NegInf" "max_ep_reward demo_state1 = NegInf"
  "params demo_state = 0" "params demo_state1 = 1"
  "curriculum demo_state2 = Some 2" "specialist demo_state2 = None"
  "episode_rewards demo_state2 = [1000, 1000]" "max_ep_reward demo_state2 = Fin 1000"
  "params demo_state2 = 2"
  by (simp_all add: demo_cfg_def demo_state_def demo_state1_def demo_state2_def)

lemma demo_loop1: "train_loop demo_cfg demo_world 2 [0] demo_state = Inr demo_state1"
  by (simp add: train_loop_def demo_update)

lemma demo_main: "main demo_cfg demo_world 0 = Inr demo_state2"
proof -
  have "py_range 2 = [0, 1]" by (simp add: py_range_def upt_conv_Cons)
  then show ?thesis
    by (simp add: main_def demo_init bind_def train_loop_def demo_update demo_update2 [unfolded One_nat_def])
qed

lemma demo_world_ok: "world_ok demo_cfg demo_world"
  by (simp add: world_ok_def infos_ok_def demo_cfg_def demo_world_def)

lemma demo_collect_step:
  "collect_step demo_cfg demo_world 0 0 demo_state =
     Inr (demo_state\<lparr>episode_rewards := [1000],
            trace := trace demo_state @ [Act, EnvStep, Insert [0, 1] [1, 0]]\<rparr>)"
  by code_simp

lemma demo_env_step:
  "env_step demo_world 0 0 = ([True, False],
        [[''episode'' \<mapsto> [''r'' \<mapsto> 1000]], [''bad_transition'' \<mapsto> Map.empty]])"
  by (simp add: demo_world_def)

lemma demo_step_events:
  "new_events demo_state (demo_state\<lparr>episode_rewards := [1000],
            trace := trace demo_state @ [Act, EnvStep, Insert [0, 1] [1, 0]]\<rparr>)
     = [Act, EnvStep, Insert [0, 1] [1, 0]]"
  by (simp add: new_events_def)

section \<open>The claims\<close>

text \<open>
  C1 asks every consumer of the episode-reward statistics to short-circuit on the empty
  deque. The run below has the curriculum and the specialist fork on and no episode ever
  ends: the trace holds \<open>Median []\<close> (line 291) and \<open>Mean []\<close> (line 321), so these two
  checks do take the aggregate of the empty deque, while the best-snapshot check and the
  log, both under \<^verbatim>\<open>len(episode_rewards) > 1\<close>, add nothing.
\<close>

theorem C1_empty_deque_aggregates:
  "map_sum id trace (main quiet_cfg quiet_world 0) =
     Inr [UpdateCurriculum 0, UpdateSpecialist 0, EnvReset, SetLR 1, DeepCopy, Act, EnvStep,
       Insert [1, 1] [1, 1], TestReset, ActDeterministic, TestStep, Median [], BootstrapValue,
       ComputeReturns, AgentUpdate, AfterUpdate, Mean [], Save ''models/Cassie_100.pt'']"
  by code_simp

text \<open>
  C2, as the code has it. In every update iteration the blocks run in the order: learning
  rate and snapshot copy, COLLECT, EVALUATE, the curriculum-escalation decision, ADVANTAGE
  (bootstrap value, \<^verbatim>\<open>compute_returns\<close>), OPTIMIZE (\<^verbatim>\<open>agent.update\<close>, then \<^verbatim>\<open>after_update\<close>),
  and last the rest of CHECKPOINT/ADAPT (snapshot name, specialist fork, saves, log). The
  curriculum decision comes after EVALUATE and before ADVANTAGE and OPTIMIZE.
\<close>

theorem C2_phase_order:
  assumes "update_iter cfg W num_updates j s = Inr s'"
  shows "\<exists>c e a k. new_events s s' = [SetLR (scheduled_lr cfg W num_updates j), DeepCopy] @ c @ e @ a
                        @ [BootstrapValue, ComputeReturns, AgentUpdate, AfterUpdate] @ k
           \<and> (\<forall>x\<in>set c. phase_of x = COLLECT) \<and> (\<forall>x\<in>set e. phase_of x = EVALUATE)
           \<and> (\<forall>x\<in>set a. phase_of x = ADAPT_CURRICULUM) \<and> (\<forall>x\<in>set k. phase_of x = CHECKPOINT_ADAPT)"
proof -
  from update_iter_effect [OF assms] obtain r tr cur sp nc m c e a k where
    s': "s' = s\<lparr>params := ppo_update W j (params s), curriculum := cur, specialist := sp,
             episode_rewards := r, test_episode_rewards := tr, next_checkpoint := nc,
             max_ep_reward := m,
             trace := trace s @ [SetLR (scheduled_lr cfg W num_updates j), DeepCopy] @ c @ e @ a
                        @ [BootstrapValue, ComputeReturns, AgentUpdate, AfterUpdate] @ k\<rparr>"
    and c: "\<forall>x\<in>set c. phase_of x = COLLECT" and e: "\<forall>x\<in>set e. phase_of x = EVALUATE"
    and a: "if use_curriculum cfg \<and> float_gt (np_median W r) (Fin 900)
        then \<exists>n. curriculum s = Some n \<and> cur = Some (n + 1) \<and> a = [Median r, UpdateCurriculum (n + 1)]
        else cur = curriculum s \<and> a = (if use_curriculum cfg then [Median r] else [])"
    and k: "\<forall>x\<in>set k. phase_of x = CHECKPOINT_ADAPT"
    by blast
  have a': "\<forall>x\<in>set a. phase_of x = ADAPT_CURRICULUM"
    using a by (auto split: if_splits)
  have ev: "new_events s s' = [SetLR (scheduled_lr cfg W num_updates j), DeepCopy] @ c @ e @ a
                        @ [BootstrapValue, ComputeReturns, AgentUpdate, AfterUpdate] @ k"
    by (rule new_events_eq) (simp add: s')
  from ev c e a' k show ?thesis by blast
qed

theorem C2_phase_order_witness:
  "update_iter demo_cfg demo_world 2 0 demo_state = Inr demo_state1
   \<and> (\<exists>c e a k. new_events demo_state demo_state1 =
          [SetLR (scheduled_lr demo_cfg demo_world 2 0), DeepCopy] @ c @ e @ a
            @ [BootstrapValue, ComputeReturns, AgentUpdate, AfterUpdate] @ k
        \<and> (\<forall>x\<in>set c. phase_of x = COLLECT) \<and> (\<forall>x\<in>set e. phase_of x = EVALUATE)
        \<and> (\<forall>x\<in>set a. phase_of x = ADAPT_CURRICULUM) \<and> (\<forall>x\<in>set k. phase_of x = CHECKPOINT_ADAPT))"
  using C2_phase_order [OF demo_update] demo_update by simp

text \<open>
  C2 as stated puts the curriculum-escalation decision after the OPTIMIZE phase. In the
  first update of the sample run the new level is pushed before \<^verbatim>\<open>agent.update\<close> is called.
\<close>

theorem C2_phase_order_counterexample:
  "update_iter demo_cfg demo_world 2 0 demo_state = Inr demo_state1
   \<and> position (UpdateCurriculum 1) (new_events demo_state demo_state1) = Some 9
   \<and> position AgentUpdate (new_events demo_state demo_state1) = Some 12"
  by (simp add: demo_update demo_new_events)

text \<open>
  C3. In every update iteration in which curriculum is enabled and the median of the
  recorded training episode rewards exceeds 900, the curriculum level goes up by exactly
  one and the new level is pushed to the environments through \<^verbatim>\<open>update_curriculum\<close>, once;
  in every other iteration the level is unchanged and nothing is pushed. The median is the
  float64 value \<^verbatim>\<open>np.median\<close> returns for the deque, whatever its rounding. The rewards
  it reads are those recorded by the end of the iteration's collection, which the rest of
  the iteration leaves as they are.
\<close>

theorem C3_curriculum_escalation:
  assumes "update_iter cfg W num_updates j s = Inr s'"
  shows "if use_curriculum cfg \<and> float_gt (np_median W (episode_rewards s')) (Fin 900)
         then \<exists>n. curriculum s = Some n \<and> curriculum s' = Some (n + 1)
                \<and> curriculum_pushes (new_events s s') = [n + 1]
         else curriculum s' = curriculum s \<and> curriculum_pushes (new_events s s') = []"
proof -
  from update_iter_effect [OF assms] obtain r tr cur sp nc m c e a k where
    s': "s' = s\<lparr>params := ppo_update W j (params s), curriculum := cur, specialist := sp,
             episode_rewards := r, test_episode_rewards := tr, next_checkpoint := nc,
             max_ep_reward := m,
             trace := trace s @ [SetLR (scheduled_lr cfg W num_updates j), DeepCopy] @ c @ e @ a
                        @ [BootstrapValue, ComputeReturns, AgentUpdate, AfterUpdate] @ k\<rparr>"
    and c: "\<forall>x\<in>set c. phase_of x = COLLECT" and e: "\<forall>x\<in>set e. phase_of x = EVALUATE"
    and a: "if use_curriculum cfg \<and> float_gt (np_median W r) (Fin 900)
        then \<exists>n. curriculum s = Some n \<and> cur = Some (n + 1) \<and> a = [Median r, UpdateCurriculum (n + 1)]
        else cur = curriculum s \<and> a = (if use_curriculum cfg then [Median r] else [])"
    and k: "\<forall>x\<in>set k. phase_of x = CHECKPOINT_ADAPT"
    by blast
  have pc: "curriculum_pushes c = []" "curriculum_pushes e = []" "curriculum_pushes k = []"
    using c e k by (auto intro!: curriculum_pushes_other)
  have ev: "new_events s s' = [SetLR (scheduled_lr cfg W num_updates j), DeepCopy] @ c @ e @ a
                        @ [BootstrapValue, ComputeReturns, AgentUpdate, AfterUpdate] @ k"
    by (rule new_events_eq) (simp add: s')
  have f: "episode_rewards s' = r" "curriculum s' = cur" by (simp_all add: s')
  show ?thesis unfolding ev f using a pc by (auto split: if_splits)
qed

theorem C3_curriculum_escalation_witness:
  "update_iter demo_cfg demo_world 2 0 demo_state = Inr demo_state1
   \<and> use_curriculum demo_cfg \<and> float_gt (np_median demo_world (episode_rewards demo_state1)) (Fin 900)
   \<and> curriculum demo_state = Some 0 \<and> curriculum demo_state1 = Some 1
   \<and> curriculum_pushes (new_events demo_state demo_state1) = [1]"
  using C3_curriculum_escalation [OF demo_update]
  by (simp add: demo_update demo_fields demo_new_events demo_aggregates)

text \<open>
  C4, as the code has it. In every update iteration in which at least two training episode
  rewards are recorded and their mean exceeds the running maximum, the model is saved under
  the \<^verbatim>\<open><env_name>_best.pt\<close> name and the running maximum becomes that mean; in every other
  iteration no save under that name happens and the running maximum is unchanged. The mean
  is the float64 value \<^verbatim>\<open>np.mean\<close> returns for the deque, whatever its rounding.
\<close>

theorem C4_best_snapshot:
  assumes "update_iter cfg W num_updates j s = Inr s'"
  shows "if 1 < length (episode_rewards s') \<and> float_gt (np_mean W (episode_rewards s')) (max_ep_reward s)
         then Save (best_path cfg) \<in> set (new_events s s') \<and> max_ep_reward s' = np_mean W (episode_rewards s')
         else Save (best_path cfg) \<notin> set (new_events s s') \<and> max_ep_reward s' = max_ep_reward s"
proof -
  from update_iter_effect [OF assms] obtain r tr cur sp nc m c e a k where
    s': "s' = s\<lparr>params := ppo_update W j (params s), curriculum := cur, specialist := sp,
             episode_rewards := r, test_episode_rewards := tr, next_checkpoint := nc,
             max_ep_reward := m,
             trace := trace s @ [SetLR (scheduled_lr cfg W num_updates j), DeepCopy] @ c @ e @ a
                        @ [BootstrapValue, ComputeReturns, AgentUpdate, AfterUpdate] @ k\<rparr>"
    and c: "\<forall>x\<in>set c. phase_of x = COLLECT" and e: "\<forall>x\<in>set e. phase_of x = EVALUATE"
    and a: "if use_curriculum cfg \<and> float_gt (np_median W r) (Fin 900)
        then \<exists>n. curriculum s = Some n \<and> cur = Some (n + 1) \<and> a = [Median r, UpdateCurriculum (n + 1)]
        else cur = curriculum s \<and> a = (if use_curriculum cfg then [Median r] else [])"
    and k: "if 1 < length r \<and> float_gt (np_mean W r) (max_ep_reward s)
        then Save (best_path cfg) \<in> set k \<and> m = np_mean W r
        else Save (best_path cfg) \<notin> set k \<and> m = max_ep_reward s"
    by blast
  have no: "Save (best_path cfg) \<notin> set c" "Save (best_path cfg) \<notin> set e" "Save (best_path cfg) \<notin> set a"
    using phase_not_in [OF c, of "Save (best_path cfg)"] phase_not_in [OF e, of "Save (best_path cfg)"] a
    by (auto split: if_splits)
  have ev: "new_events s s' = [SetLR (scheduled_lr cfg W num_updates j), DeepCopy] @ c @ e @ a
                        @ [BootstrapValue, ComputeReturns, AgentUpdate, AfterUpdate] @ k"
    by (rule new_events_eq) (simp add: s')
  have f: "episode_rewards s' = r" "max_ep_reward s' = m" by (simp_all add: s')
  show ?thesis unfolding ev f using k no by (auto split: if_splits)
qed

theorem C4_best_snapshot_witness:
  "update_iter demo_cfg demo_world 2 1 demo_state1 = Inr demo_state2
   \<and> 1 < length (episode_rewards demo_state2)
   \<and> float_gt (np_mean demo_world (episode_rewards demo_state2)) (max_ep_reward demo_state1)
   \<and> Save (best_path demo_cfg) \<in> set (new_events demo_state1 demo_state2)
   \<and> max_ep_reward demo_state2 = np_mean demo_world (episode_rewards demo_state2)"
  using C4_best_snapshot [OF demo_update2] demo_update2
  by (simp add: demo_fields demo_aggregates)

text \<open>
  C4 as stated asks for the save whenever the mean exceeds the running maximum. After the
  first update of the sample run one reward is recorded, its mean 1000 exceeds the running
  maximum (minus infinity), and nothing is saved under the best name: line 332 also asks
  for more than one recorded reward.
\<close>

theorem C4_best_snapshot_counterexample:
  "update_iter demo_cfg demo_world 2 0 demo_state = Inr demo_state1
   \<and> float_gt (np_mean demo_world (episode_rewards demo_state1)) (max_ep_reward demo_state)
   \<and> Save (best_path demo_cfg) \<notin> set (new_events demo_state demo_state1)
   \<and> max_ep_reward demo_state1 = max_ep_reward demo_state"
  by (simp add: demo_update demo_fields demo_new_events demo_aggregates demo_best_path)

text \<open>
  C5. The loop runs for a fixed frame budget. With positive \<^verbatim>\<open>num_steps\<close>,
  \<^verbatim>\<open>num_processes\<close> and \<^verbatim>\<open>num_tests\<close>, a budget that is not negative, and environments and
  flags under which nothing raises, \<^verbatim>\<open>main\<close> returns after exactly
  \<open>floor (num_frames / num_steps / num_processes)\<close> update iterations, each stepping the
  \<^verbatim>\<open>num_processes\<close> training workers \<^verbatim>\<open>num_steps\<close> times; the frames collected in the whole run
  do not exceed \<^verbatim>\<open>num_frames\<close>.
\<close>

theorem C5_frame_budget:
  assumes "0 < num_steps cfg" and "0 < num_processes cfg" and "0 < num_tests cfg"
    and "0 \<le> num_frames cfg"
    and "\<not> (plot_prob cfg \<and> use_threshold_sampling cfg)" and "world_ok cfg W"
  shows "\<exists>s. main cfg W p0 = Inr s
     \<and> count_list (trace s) AgentUpdate
         = nat \<lfloor>num_frames cfg / real_of_int (num_steps cfg) / real_of_int (num_processes cfg)\<rfloor>
     \<and> count_list (trace s) EnvStep = count_list (trace s) AgentUpdate * nat (num_steps cfg)
     \<and> real (count_list (trace s) EnvStep) * real_of_int (num_processes cfg) \<le> num_frames cfg"
proof -
  define nu where "nu = py_int (num_frames cfg) div num_steps cfg div num_processes cfg"
  note fl = num_updates_floor [OF assms(1,2,4), folded nu_def]
  from init_total [OF assms(1,2) less_imp_le [OF assms(3)], of p0, folded nu_def] obtain s0 where
    init: "init cfg p0 = Inr (s0, nu)" and b0: "bound_ok cfg s0"
    and z: "count_list (trace s0) AgentUpdate = 0" "count_list (trace s0) EnvStep = 0"
    by blast
  from train_loop_total [OF b0 assms(5,6,2,3)] obtain s where
    loop: "train_loop cfg W nu (py_range nu) s0 = Inr s" by blast
  have main: "main cfg W p0 = Inr s"
    by (simp add: main_def init bind_def loop)
  from train_loop_counts [OF loop] z have
    au: "count_list (trace s) AgentUpdate = nat nu" and
    es: "count_list (trace s) EnvStep = nat nu * nat (num_steps cfg)"
    by (simp_all add: py_range_def)
  have "real (nat nu * nat (num_steps cfg)) * real_of_int (num_processes cfg)
          = real_of_int (nu * num_steps cfg * num_processes cfg)"
    using fl(2) assms(1) by simp
  also have "\<dots> \<le> num_frames cfg" by (rule fl(3))
  finally have le: "real (nat nu * nat (num_steps cfg)) * real_of_int (num_processes cfg) \<le> num_frames cfg" .
  from main au es le fl(1) show ?thesis by auto
qed

theorem C5_frame_budget_witness:
  "0 < num_steps demo_cfg \<and> 0 < num_processes demo_cfg \<and> 0 < num_tests demo_cfg
   \<and> 0 \<le> num_frames demo_cfg
   \<and> \<not> (plot_prob demo_cfg \<and> use_threshold_sampling demo_cfg) \<and> world_ok demo_cfg demo_world
   \<and> main demo_cfg demo_world 0 = Inr demo_state2
   \<and> count_list (trace demo_state2) AgentUpdate = 2
   \<and> count_list (trace demo_state2) EnvStep = 2
   \<and> real (count_list (trace demo_state2) EnvStep) * real_of_int (num_processes demo_cfg) \<le> num_frames demo_cfg"
proof -
  have h: "0 < num_steps demo_cfg" "0 < num_processes demo_cfg" "0 < num_tests demo_cfg"
    "0 \<le> num_frames demo_cfg" "\<not> (plot_prob demo_cfg \<and> use_threshold_sampling demo_cfg)"
    by (simp_all add: demo_cfg_def)
  have v: "nat \<lfloor>num_frames demo_cfg / real_of_int (num_steps demo_cfg) / real_of_int (num_processes demo_cfg)\<rfloor> = 2"
    "nat (num_steps demo_cfg) = 1"
    by (simp_all add: demo_cfg_def)
  from C5_frame_budget [OF h demo_world_ok, of 0] obtain s where
    s: "main demo_cfg demo_world 0 = Inr s"
    and c: "count_list (trace s) AgentUpdate
         = nat \<lfloor>num_frames demo_cfg / real_of_int (num_steps demo_cfg) / real_of_int (num_processes demo_cfg)\<rfloor>"
      "count_list (trace s) EnvStep = count_list (trace s) AgentUpdate * nat (num_steps demo_cfg)"
      "real (count_list (trace s) EnvStep) * real_of_int (num_processes demo_cfg) \<le> num_frames demo_cfg"
    by blast
  from s demo_main have "s = demo_state2" by simp
  moreover have "num_processes demo_cfg = 2" "num_frames demo_cfg = 4"
    by (simp_all add: demo_cfg_def)
  ultimately show ?thesis using c v h demo_world_ok demo_main by simp
qed

text \<open>
  C6. The live parameters are changed only by the optimizer's update call in the OPTIMIZE
  phase. Through the learning-rate step, the whole COLLECT phase (with its value probes for
  plotting, adaptive and threshold sampling), the EVALUATE phase, the curriculum decision
  and the bootstrap value of ADVANTAGE they are what they were when the iteration began;
  after \<^verbatim>\<open>agent.update\<close> they are what that call made of them, and the checkpoint block
  leaves them there. The calls \<^verbatim>\<open>act\<close>, \<^verbatim>\<open>get_value\<close> and \<^verbatim>\<open>update\<close> are as the spec gives
  them.
\<close>

theorem C6_parameters_frame:
  assumes "update_iter cfg W num_updates j s = Inr s'"
  shows "\<exists>s1 s2 s3.
     collect cfg W j (schedule cfg W num_updates j s) = Inr s1
     \<and> evaluate cfg W j s1 = Inr s2
     \<and> escalate_curriculum cfg W s2 = Inr s3
     \<and> checkpoint_adapt cfg W num_updates j (optimize W j (advantage s3)) = Inr s'
     \<and> params (schedule cfg W num_updates j s) = params s
     \<and> params s1 = params s \<and> params s2 = params s \<and> params s3 = params s
     \<and> params (advantage s3) = params s
     \<and> params (optimize W j (advantage s3)) = ppo_update W j (params s)
     \<and> params s' = ppo_update W j (params s)"
proof -
  from assms obtain s1 s2 s3 where
    c: "collect cfg W j (schedule cfg W num_updates j s) = Inr s1" and
    e: "evaluate cfg W j s1 = Inr s2" and
    a: "escalate_curriculum cfg W s2 = Inr s3" and
    k: "checkpoint_adapt cfg W num_updates j (optimize W j (advantage s3)) = Inr s'"
    unfolding update_iter_Inr by blast
  have p0: "params (schedule cfg W num_updates j s) = params s"
    by (simp add: schedule_eq)
  from collect_effect [OF c] have p1: "params s1 = params s"
    using p0 by auto
  from evaluate_effect [OF e] have p2: "params s2 = params s"
    using p1 by auto
  from escalate_curriculum_Inr(1) [OF a] have p3: "params s3 = params s"
    using p2 by (auto split: if_splits)
  have p4: "params (advantage s3) = params s"
    using p3 by (simp add: advantage_def actor_critic_get_value_def emit_def)
  have p5: "params (optimize W j (advantage s3)) = ppo_update W j (params s)"
    using p3 by (simp add: advantage_optimize_eq)
  from checkpoint_adapt_effect [OF k] have p6: "params s' = ppo_update W j (params s)"
    using p5 by auto
  from c e a k p0 p1 p2 p3 p4 p5 p6 show ?thesis by blast
qed

theorem C6_parameters_frame_witness:
  "update_iter demo_cfg demo_world 2 0 demo_state = Inr demo_state1
   \<and> (\<exists>s1 s2 s3.
     collect demo_cfg demo_world 0 (schedule demo_cfg demo_world 2 0 demo_state) = Inr s1
     \<and> evaluate demo_cfg demo_world 0 s1 = Inr s2
     \<and> escalate_curriculum demo_cfg demo_world s2 = Inr s3
     \<and> checkpoint_adapt demo_cfg demo_world 2 0 (optimize demo_world 0 (advantage s3)) = Inr demo_state1
     \<and> params (schedule demo_cfg demo_world 2 0 demo_state) = params demo_state
     \<and> params s1 = params demo_state \<and> params s2 = params demo_state \<and> params s3 = params demo_state
     \<and> params (advantage s3) = params demo_state
     \<and> params (optimize demo_world 0 (advantage s3)) = ppo_update demo_world 0 (params demo_state)
     \<and> params demo_state1 = ppo_update demo_world 0 (params demo_state))"
  using C6_parameters_frame [OF demo_update] demo_update by simp

text \<open>
  C7. Every collected step hands exactly one transition batch to the rollout buffer. For
  every worker \<open>p\<close> its \<open>bad_mask\<close> is 0 if that worker's info mapping has the key
  \<^verbatim>\<open>"bad_transition"\<close> and 1 otherwise, and its continuation mask is 0 if that worker's
  \<^verbatim>\<open>done\<close> flag is true and 1 otherwise.
\<close>

theorem C7_masks:
  assumes "collect_step cfg W j step s = Inr s'"
    and "env_step W j step = (done, infos)"
  shows "\<exists>bad_masks.
     inserts (new_events s s') = [(masks_of done, bad_masks)]
     \<and> length bad_masks = nat (num_processes cfg) \<and> length (masks_of done) = length done
     \<and> (\<forall>p. p < nat (num_processes cfg) \<and> p < length infos \<longrightarrow>
            bad_masks ! p = (if (infos ! p) ''bad_transition'' \<noteq> None then 0 else 1))
     \<and> (\<forall>p<length done. masks_of done ! p = (if done ! p then 0 else 1))"
proof -
  from assms obtain s1 s2 bad_masks rewards where
    s1: "plot_values cfg step (emit EnvStep (actor_critic_act False s)) = Inr s1" and
    s2: "threshold_sampling cfg step (adaptive_sampling cfg s1) = Inr s2" and
    scan: "for_each (scan_info (nat (num_processes cfg))) (enumerate 0 infos)
             (replicate (nat (num_processes cfg)) 1, episode_rewards s2) = Inr (bad_masks, rewards)" and
    s': "s' = emit (Insert (masks_of done) bad_masks) (s2\<lparr>episode_rewards := rewards\<rparr>)"
    by (auto simp: collect_step_def bind_Inr_iff)
  from plot_values_effect [OF s1] obtain e1 where
    e1: "s1 = s\<lparr>trace := trace s @ [Act, EnvStep] @ e1\<rparr>" "inserts e1 = []"
    by (auto simp: emit_def actor_critic_act_def)
  from adaptive_sampling_effect [of cfg s1] obtain e2 where
    e2: "adaptive_sampling cfg s1 = s1\<lparr>trace := trace s1 @ e2\<rparr>" "inserts e2 = []"
    by blast
  from threshold_sampling_effect [OF s2] obtain e3 where
    e3: "s2 = (adaptive_sampling cfg s1)\<lparr>trace := trace (adaptive_sampling cfg s1) @ e3\<rparr>"
      "inserts e3 = []"
    by blast
  have "trace s' = trace s @ ([Act, EnvStep] @ e1 @ e2 @ e3 @ [Insert (masks_of done) bad_masks])"
    using s' e1(1) e2(1) e3(1) by (simp add: emit_def)
  then have ev: "new_events s s' = [Act, EnvStep] @ e1 @ e2 @ e3 @ [Insert (masks_of done) bad_masks]"
    by (rule new_events_eq)
  have ins: "inserts (new_events s s') = [(masks_of done, bad_masks)]"
    unfolding ev using e1(2) e2(2) e3(2) by simp
  from scan_infos_bad_masks [OF scan] have
    len: "length bad_masks = nat (num_processes cfg)" and
    bm: "\<And>p. p < nat (num_processes cfg) \<Longrightarrow> bad_masks ! p =
           (if p < length infos \<and> (infos ! p) ''bad_transition'' \<noteq> None then 0 else 1)"
    by simp_all
  have m: "\<forall>p<length done. masks_of done ! p = (if done ! p then 0 else 1)"
    by (simp add: masks_of_def)
  from ins len bm m show ?thesis
    by (intro exI [of _ bad_masks]) (simp add: masks_of_def)
qed

theorem C7_masks_witness:
  "collect_step demo_cfg demo_world 0 0 demo_state =
     Inr (demo_state\<lparr>episode_rewards := [1000],
            trace := trace demo_state @ [Act, EnvStep, Insert [0, 1] [1, 0]]\<rparr>)
   \<and> env_step demo_world 0 0 = ([True, False],
        [[''episode'' \<mapsto> [''r'' \<mapsto> 1000]], [''bad_transition'' \<mapsto> Map.empty]])
   \<and> (\<exists>bad_masks.
        inserts (new_events demo_state (demo_state\<lparr>episode_rewards := [1000],
            trace := trace demo_state @ [Act, EnvStep, Insert [0, 1] [1, 0]]\<rparr>))
          = [(masks_of [True, False], bad_masks)]
        \<and> length bad_masks = 2 \<and> bad_masks ! 0 = 1 \<and> bad_masks ! 1 = 0)
   \<and> masks_of [True, False] ! 0 = 0 \<and> masks_of [True, False] ! 1 = 1"
proof -
  have np: "nat (num_processes demo_cfg) = 2" by (simp add: demo_cfg_def)
  have "\<exists>bad_masks.
        inserts (new_events demo_state (demo_state\<lparr>episode_rewards := [1000],
            trace := trace demo_state @ [Act, EnvStep, Insert [0, 1] [1, 0]]\<rparr>))
          = [(masks_of [True, False], bad_masks)]
        \<and> length bad_masks = 2 \<and> bad_masks ! 0 = 1 \<and> bad_masks ! 1 = 0"
  proof -
    from C7_masks [OF demo_collect_step demo_env_step]
    have "\<exists>bad_masks. [([0, 1], [1, 0])] = [(masks_of [True, False], bad_masks)]
            \<and> length bad_masks = 2"
      unfolding demo_step_events np by (simp add: masks_of_def)
    then show ?thesis
      unfolding demo_step_events by (simp add: masks_of_def)
  qed
  with demo_collect_step demo_env_step show ?thesis
    by (simp add: masks_of_def)
qed

text \<open>
  C8. The curriculum level and the specialist index only move forward. When its flag is
  set a counter starts at 0, after any number of iterations it is bound and between 0 and
  the number of iterations run, and one more iteration adds exactly one when the reward
  test of the counter holds (median above 900 for the curriculum, mean above 1000 for the
  specialist, each the float64 value numpy returns for the deque) and leaves it as it is
  otherwise; it never goes down and is never reset. When the flag is off the counter is
  never bound.
\<close>

theorem C8_counters_monotone:
  assumes "init cfg p0 = Inr (s0, num_updates)"
    and "train_loop cfg W num_updates js s0 = Inr s"
    and "update_iter cfg W num_updates j s = Inr s'"
  shows "(if use_curriculum cfg
          then curriculum s0 = Some 0
             \<and> (\<exists>c. curriculum s = Some c \<and> 0 \<le> c \<and> c \<le> int (length js)
                    \<and> curriculum s' = Some (if float_gt (np_median W (episode_rewards s')) (Fin 900)
                                             then c + 1 else c))
          else curriculum s0 = None \<and> curriculum s = None \<and> curriculum s' = None)
       \<and> (if use_specialist cfg
          then specialist s0 = Some 0
             \<and> (\<exists>n. specialist s = Some n \<and> 0 \<le> n \<and> n \<le> int (length js)
                    \<and> specialist s' = Some (if float_gt (np_mean W (episode_rewards s')) (Fin 1000)
                                             then n + 1 else n))
          else specialist s0 = None \<and> specialist s = None \<and> specialist s' = None)"
proof -
  note i = init_counters [OF assms(1)]
  from train_loop_counters [OF assms(2)] have
    w: "counter_within (curriculum s0) (length js) (curriculum s)"
       "counter_within (specialist s0) (length js) (specialist s)"
    by simp_all
  note x = update_iter_counters_exact [OF assms(3)]
  have cur: "if use_curriculum cfg
          then curriculum s0 = Some 0
             \<and> (\<exists>c. curriculum s = Some c \<and> 0 \<le> c \<and> c \<le> int (length js)
                    \<and> curriculum s' = Some (if float_gt (np_median W (episode_rewards s')) (Fin 900)
                                             then c + 1 else c))
          else curriculum s0 = None \<and> curriculum s = None \<and> curriculum s' = None"
    using i(1) w(1) x(1) by (auto simp: counter_within_def split: option.splits if_splits)
  have sp: "if use_specialist cfg
          then specialist s0 = Some 0
             \<and> (\<exists>n. specialist s = Some n \<and> 0 \<le> n \<and> n \<le> int (length js)
                    \<and> specialist s' = Some (if float_gt (np_mean W (episode_rewards s')) (Fin 1000)
                                             then n + 1 else n))
          else specialist s0 = None \<and> specialist s = None \<and> specialist s' = None"
    using i(2) w(2) x(2) by (auto simp: counter_within_def split: option.splits if_splits)
  from cur sp show ?thesis by (rule conjI)
qed

theorem C8_counters_monotone_witness:
  "init fork_cfg 0 = Inr (fork_state, 2)
   \<and> train_loop fork_cfg rich_world 2 [0] fork_state = Inr fork_state1
   \<and> update_iter fork_cfg rich_world 2 1 fork_state1 = Inr fork_state2
   \<and> use_curriculum fork_cfg \<and> curriculum fork_state = Some 0
   \<and> curriculum fork_state1 = Some 1
   \<and> float_gt (np_median rich_world (episode_rewards fork_state2)) (Fin 900)
   \<and> curriculum fork_state2 = Some 2
   \<and> use_specialist fork_cfg \<and> specialist fork_state = Some 0
   \<and> specialist fork_state1 = Some 1
   \<and> float_gt (np_mean rich_world (episode_rewards fork_state2)) (Fin 1000)
   \<and> specialist fork_state2 = Some 2"
  using C8_counters_monotone [OF fork_init fork_loop1 fork_update2]
  by (simp add: fork_init fork_loop1 fork_update2 [unfolded One_nat_def] fork_fields demo_aggregates)

text \<open>
  C9. At every update iteration the learning rate is computed from the update index by the
  configured decay type: for \<^verbatim>\<open>"linear"\<close>, \<^verbatim>\<open>linear_decay\<close> from the initial rate to the floor
  0 over \<^verbatim>\<open>num_updates\<close>; for \<^verbatim>\<open>"exponential"\<close>, \<^verbatim>\<open>exponential_decay\<close> at rate 0.99 from the
  initial rate to the floor 3e-5. The result is set on the optimizer as the first call of
  the iteration, once, and \<^verbatim>\<open>agent.update\<close> comes after it.
\<close>

theorem C9_learning_rate:
  assumes "update_iter cfg W num_updates j s = Inr s'"
  shows "\<exists>evs. new_events s s' = SetLR (scheduled_lr cfg W num_updates j) # evs
           \<and> AgentUpdate \<in> set evs \<and> (\<forall>v. SetLR v \<notin> set evs)
           \<and> (lr_decay_type cfg = ''linear'' \<longrightarrow>
                scheduled_lr cfg W num_updates j = linear_decay W (int j) num_updates (lr cfg) 0)
           \<and> (lr_decay_type cfg = ''exponential'' \<longrightarrow>
                scheduled_lr cfg W num_updates j
                  = exponential_decay W (int j) (99 / 100) (lr cfg) (3 / 100000))"
proof -
  from update_iter_effect [OF assms] obtain r tr cur sp nc m c e a k where
    s': "s' = s\<lparr>params := ppo_update W j (params s), curriculum := cur, specialist := sp,
             episode_rewards := r, test_episode_rewards := tr, next_checkpoint := nc,
             max_ep_reward := m,
             trace := trace s @ [SetLR (scheduled_lr cfg W num_updates j), DeepCopy] @ c @ e @ a
                        @ [BootstrapValue, ComputeReturns, AgentUpdate, AfterUpdate] @ k\<rparr>"
    and c: "\<forall>x\<in>set c. phase_of x = COLLECT" and e: "\<forall>x\<in>set e. phase_of x = EVALUATE"
    and a: "if use_curriculum cfg \<and> float_gt (np_median W r) (Fin 900)
        then \<exists>n. curriculum s = Some n \<and> cur = Some (n + 1) \<and> a = [Median r, UpdateCurriculum (n + 1)]
        else cur = curriculum s \<and> a = (if use_curriculum cfg then [Median r] else [])"
    and k: "\<forall>x\<in>set k. phase_of x = CHECKPOINT_ADAPT"
    by blast
  let ?evs = "DeepCopy # c @ e @ a @ [BootstrapValue, ComputeReturns, AgentUpdate, AfterUpdate] @ k"
  have a': "\<forall>x\<in>set a. phase_of x = ADAPT_CURRICULUM"
    using a by (auto split: if_splits)
  have ev: "new_events s s' = SetLR (scheduled_lr cfg W num_updates j) # ?evs"
    by (rule new_events_eq) (simp add: s')
  have no: "SetLR v \<notin> set ?evs" for v
    using phase_not_in [OF c, of "SetLR v"] phase_not_in [OF e, of "SetLR v"]
      phase_not_in [OF a', of "SetLR v"] phase_not_in [OF k, of "SetLR v"]
    by simp
  have "AgentUpdate \<in> set ?evs" by simp
  with ev no show ?thesis
    by (intro exI [of _ ?evs]) (simp add: scheduled_lr_def)
qed

theorem C9_learning_rate_witness:
  "update_iter demo_cfg demo_world 2 1 demo_state1 = Inr demo_state2
   \<and> lr_decay_type demo_cfg = ''exponential''
   \<and> scheduled_lr demo_cfg demo_world 2 1 = exponential_decay demo_world 1 (99 / 100) (lr demo_cfg) (3 / 100000)
   \<and> scheduled_lr demo_cfg demo_world 2 1 = 99 / 100
   \<and> (\<exists>evs. new_events demo_state1 demo_state2 = SetLR (99 / 100) # evs
           \<and> AgentUpdate \<in> set evs \<and> (\<forall>v. SetLR v \<notin> set evs))"
proof -
  have t: "lr_decay_type demo_cfg = ''exponential''" by (simp add: demo_cfg_def)
  have v: "exponential_decay demo_world 1 (99 / 100) (lr demo_cfg) (3 / 100000) = 99 / 100"
    by (simp add: demo_world_def demo_cfg_def)
  from C9_learning_rate [OF demo_update2] t v demo_update2 show ?thesis by auto
qed

text \<open>
  C10. With \<^verbatim>\<open>plot_prob\<close> and \<^verbatim>\<open>use_threshold_sampling\<close> both on, and a budget that allows at
  least one update of at least one step, the first collection step of the first rollout
  raises NameError for \<^verbatim>\<open>ax\<close>: the set-up binds \<^verbatim>\<open>fig\<close>, \<^verbatim>\<open>ax1\<close> and \<^verbatim>\<open>ax2\<close> only. The first
  update does not complete and the whole run ends with that error.
\<close>

theorem C10_unbound_ax:
  assumes "plot_prob cfg" and "use_threshold_sampling cfg"
    and "0 < num_steps cfg" and "0 < num_processes cfg" and "0 \<le> num_tests cfg"
    and "real_of_int (num_steps cfg * num_processes cfg) \<le> num_frames cfg"
  shows "\<exists>s0 num_updates. init cfg p0 = Inr (s0, num_updates) \<and> 1 \<le> num_updates
           \<and> collect_step cfg W 0 0 (schedule cfg W num_updates 0 s0) = Inl (NameError ''ax'')
           \<and> update_iter cfg W num_updates 0 s0 = Inl (NameError ''ax'')
           \<and> main cfg W p0 = Inl (NameError ''ax'')"
proof -
  define nu where "nu = py_int (num_frames cfg) div num_steps cfg div num_processes cfg"
  have nu: "1 \<le> nu" unfolding nu_def using assms(3,4,6) by (rule num_updates_pos)
  from assms(1-5) obtain s0 where
    init: "init cfg p0 = Inr (s0, nu)" and
    ax: "axes s0 = [''fig'', ''ax1'', ''ax2'']" and th: "sampling_threshold s0 = Some 150"
    by (auto simp: init_def Let_def emit_def nu_def)
  let ?s = "schedule cfg W nu 0 s0"
  have "axes ?s = [''fig'', ''ax1'', ''ax2'']" "sampling_threshold ?s = Some 150"
    using ax th by (simp_all add: schedule_eq)
  from collect_step_ax [OF assms(1,2,4) this] have step: "collect_step cfg W 0 0 ?s = Inl (NameError ''ax'')" .
  have "py_range (num_steps cfg) = 0 # [1..<nat (num_steps cfg)]"
    using assms(3) by (simp add: py_range_def upt_conv_Cons)
  then have "collect cfg W 0 ?s = Inl (NameError ''ax'')"
    by (simp add: collect_def step)
  then have it: "update_iter cfg W nu 0 s0 = Inl (NameError ''ax'')"
    by (simp add: update_iter_def bind_def)
  have "py_range nu = 0 # [1..<nat nu]"
    using nu by (simp add: py_range_def upt_conv_Cons)
  then have "main cfg W p0 = Inl (NameError ''ax'')"
    by (simp add: main_def init bind_def train_loop_def it)
  with init nu step it show ?thesis by blast
qed

theorem C10_unbound_ax_witness:
  "plot_prob plot_cfg \<and> use_threshold_sampling plot_cfg \<and> 0 < num_steps plot_cfg
   \<and> 0 < num_processes plot_cfg \<and> 0 \<le> num_tests plot_cfg
   \<and> real_of_int (num_steps plot_cfg * num_processes plot_cfg) \<le> num_frames plot_cfg
   \<and> main plot_cfg demo_world 0 = Inl (NameError ''ax'')"
proof -
  have h: "plot_prob plot_cfg" "use_threshold_sampling plot_cfg" "0 < num_steps plot_cfg"
    "0 < num_processes plot_cfg" "0 \<le> num_tests plot_cfg"
    "real_of_int (num_steps plot_cfg * num_processes plot_cfg) \<le> num_frames plot_cfg"
    by (simp_all add: plot_cfg_def demo_cfg_def)
  from C10_unbound_ax [OF h, of 0 demo_world] have "main plot_cfg demo_world 0 = Inl (NameError ''ax'')"
    by blast
  with h show ?thesis by simp
qed

end
